theory Spec2Isabelle
  imports Main
begin

section \<open>JavaScript values met by the client\<close>

text \<open>
  Strings are byte lists (the UTF-8 encoding of the JavaScript string). Every string
  operation of the client that is modelled here (\<open>includes("abort")\<close>, the removal of
  trailing slashes, concatenation, \<open>encodeURIComponent\<close>) gives the same result on
  the UTF-8 bytes as on the UTF-16 code units of a well-formed string.

  A value produced by \<open>JSON.parse\<close> (what \<open>res.json()\<close> resolves to). A number is
  kept as its canonical rendering, the string that \<open>String(n)\<close> returns: the client
  never computes with a number of a body, it only prints it. An object is the list of
  its own properties; a lookup takes the first entry with the key.
\<close>

datatype json =
    JNull
  | JBool bool
  | JNum string
  | JStr string
  | JArr "json list"
  | JObj "(string \<times> json) list"

text \<open>The exceptions of the model: the SDK's two error classes are declared below;
  \<open>TypeError\<close> is the runtime's (a property read on \<open>null\<close>, an object that has no
  primitive value); \<open>BodyRejected\<close> is whatever \<open>res.json()\<close> or \<open>res.text()\<close>
  rejects with on a success response, which the client does not catch.\<close>

record AgentScoreError =
  name :: string
  message :: string

record NetworkError = AgentScoreError +
  statusCode :: "nat option"

record PaymentRequiredError = AgentScoreError +
  statusCode402 :: nat
  accepts :: "json list"
  rawBody :: json

datatype thrown_error =
    ThrownNetworkError NetworkError
  | ThrownPaymentRequiredError PaymentRequiredError
  | TypeError
  | BodyRejected

text \<open>\<open>new NetworkError(message, statusCode?)\<close> of errors.ts.\<close>

definition new_NetworkError :: "string \<Rightarrow> nat option \<Rightarrow> NetworkError" where
  "new_NetworkError msg sc = \<lparr> name = ''NetworkError'', message = msg, statusCode = sc \<rparr>"

text \<open>Decimal rendering of a number in a template literal (\<open>${res.status}\<close>,
  \<open>${this.timeoutMs}\<close>), for integers (below \<open>10^21\<close> in absolute value JavaScript
  prints every digit).\<close>

definition digit_char :: "nat \<Rightarrow> char" where
  "digit_char d = ''0123456789'' ! d"

fun show_nat :: "nat \<Rightarrow> string" where
  "show_nat n = (if n < 10 then [digit_char n] else show_nat (n div 10) @ [digit_char (n mod 10)])"

definition show_int :: "int \<Rightarrow> string" where
  "show_int i = (if i < 0 then CHR ''-'' # show_nat (nat (- i)) else show_nat (nat i))"

text \<open>\<open>xs.join(",")\<close> on already rendered elements.\<close>

fun join_comma :: "string list \<Rightarrow> string" where
  "join_comma [] = []"
| "join_comma [s] = s"
| "join_comma (s # t # ss) = s @ '','' @ join_comma (t # ss)"

text \<open>
  \<open>ToString\<close> of a parsed JSON value, as a template literal applies it. An array
  joins its elements with commas, \<open>null\<close> elements rendered empty. A plain object
  renders as \<open>[object Object]\<close> through \<open>Object.prototype.toString\<close>, unless it has
  an own property \<open>toString\<close>: a parsed value is never callable, the inherited
  \<open>valueOf\<close> returns the object itself, and the conversion throws a TypeError.
  \<open>None\<close> is that TypeError.
\<close>

fun sequence_option :: "'a option list \<Rightarrow> 'a list option" where
  "sequence_option [] = Some []"
| "sequence_option (None # _) = None"
| "sequence_option (Some x # xs) = (case sequence_option xs of None \<Rightarrow> None | Some ys \<Rightarrow> Some (x # ys))"

fun js_ToString :: "json \<Rightarrow> string option" where
  "js_ToString JNull = Some ''null''"
| "js_ToString (JBool b) = Some (if b then ''true'' else ''false'')"
| "js_ToString (JNum s) = Some s"
| "js_ToString (JStr s) = Some s"
| "js_ToString (JArr xs) =
     (case sequence_option (map (\<lambda>x. if x = JNull then Some [] else js_ToString x) xs) of
        None \<Rightarrow> None
      | Some ss \<Rightarrow> Some (join_comma ss))"
| "js_ToString (JObj kvs) =
     (if map_of kvs ''toString'' = None then Some ''[object Object]'' else None)"

text \<open>
  A property read \<open>v.k\<close> on a parsed JSON value, for the keys the client reads
  (\<open>accepts\<close>, \<open>maxAmountRequired\<close>, \<open>asset\<close>, \<open>recommendation\<close>, \<open>score\<close>,
  \<open>wallet\<close>), none of which any built-in prototype defines. The outer \<open>None\<close> is the
  TypeError of a read on \<open>null\<close>; the inner \<open>None\<close> is \<open>undefined\<close>.
\<close>

fun js_get :: "json \<Rightarrow> string \<Rightarrow> json option option" where
  "js_get JNull k = None"
| "js_get (JObj kvs) k = Some (map_of kvs k)"
| "js_get v k = Some None"

text \<open>\<open>accepts[0]?.k\<close>: \<open>undefined\<close> when the list is empty or its first entry is
  \<open>null\<close>, else the property read.\<close>

fun first_accept_field :: "json list \<Rightarrow> string \<Rightarrow> json option" where
  "first_accept_field [] k = None"
| "first_accept_field (a # _) k = (case js_get a k of None \<Rightarrow> None | Some r \<Rightarrow> r)"

text \<open>\<open>x ?? "unknown"\<close>: the default replaces \<open>undefined\<close> and \<open>null\<close> only.\<close>

fun or_unknown :: "json option \<Rightarrow> json" where
  "or_unknown None = JStr ''unknown''"
| "or_unknown (Some JNull) = JStr ''unknown''"
| "or_unknown (Some v) = v"

text \<open>\<open>new PaymentRequiredError(accepts, rawBody)\<close> of errors.ts. The template literal
  of the message can throw (see \<open>js_ToString\<close>), so construction is fallible.\<close>

definition new_PaymentRequiredError :: "json list \<Rightarrow> json \<Rightarrow> thrown_error + PaymentRequiredError" where
  "new_PaymentRequiredError acc raw =
     (let amount = or_unknown (first_accept_field acc ''maxAmountRequired'');
          asset = or_unknown (first_accept_field acc ''asset'')
      in case js_ToString amount of
           None \<Rightarrow> Inl TypeError
         | Some amount_s \<Rightarrow>
             (case js_ToString asset of
                None \<Rightarrow> Inl TypeError
              | Some asset_s \<Rightarrow>
                  Inr \<lparr> name = ''PaymentRequiredError'',
                        message = ''Payment required: '' @ amount_s @ '' '' @ asset_s,
                        statusCode402 = 402, accepts = acc, rawBody = raw \<rparr>))"

section \<open>The client and its constructor (client.ts)\<close>

definition DEFAULT_BASE_URL :: string where
  "DEFAULT_BASE_URL = ''https://djd-agent-score.fly.dev''"

text \<open>
  A number of the client's configuration (\<open>timeoutMs\<close>, \<open>maxRetries\<close>, of type
  \<open>number\<close>): the constructor validates nothing, so beside an integer it may be
  \<open>NaN\<close>. Two kinds of numbers are left out: a fraction, which in the loop guard
  admits the attempts of its integer part, and an infinity (\<open>-Infinity\<close> behaves in
  the guard as any negative limit; \<open>Infinity\<close> lets the loop run without bound).
\<close>

datatype js_number = Num int | NaN

text \<open>\<open>x <= y\<close> and \<open>x < y\<close>: false as soon as one side is \<open>NaN\<close>.\<close>

fun js_le :: "js_number \<Rightarrow> js_number \<Rightarrow> bool" where
  "js_le (Num x) (Num y) = (x \<le> y)"
| "js_le NaN y = False"
| "js_le (Num x) NaN = False"

fun js_lt :: "js_number \<Rightarrow> js_number \<Rightarrow> bool" where
  "js_lt (Num x) (Num y) = (x < y)"
| "js_lt NaN y = False"
| "js_lt (Num x) NaN = False"

text \<open>A configuration number in a template literal (an integer as \<open>show_int\<close> prints
  it, which is JavaScript's rendering below \<open>10^21\<close> in absolute value).\<close>

fun js_number_string :: "js_number \<Rightarrow> string" where
  "js_number_string (Num i) = show_int i"
| "js_number_string NaN = ''NaN''"

definition DEFAULT_TIMEOUT_MS :: js_number where
  "DEFAULT_TIMEOUT_MS = Num 10000"

definition DEFAULT_MAX_RETRIES :: js_number where
  "DEFAULT_MAX_RETRIES = Num 3"

definition INITIAL_BACKOFF_MS :: nat where
  "INITIAL_BACKOFF_MS = 1000"

text \<open>\<open>AgentScoreClientOptions\<close> of types.ts: every field may be absent.\<close>

record AgentScoreClientOptions =
  baseUrl_option :: "string option"
  timeoutMs_option :: "js_number option"
  maxRetries_option :: "js_number option"

record AgentScoreClient =
  baseUrl :: string
  timeoutMs :: js_number
  maxRetries :: js_number

text \<open>
  \<open>replace\<close> with the regular expression "one or more slashes, then the end of the
  input" and the empty replacement, as the constructor applies it to the base URL. The
  expression has no flags: it is tried at each index from the left, and at an index it
  matches when the rest of the string is one or more slashes up to the end of the
  input; the first (and only) match is replaced by the empty string.
\<close>

fun remove_trailing_slashes :: "string \<Rightarrow> string" where
  "remove_trailing_slashes [] = []"
| "remove_trailing_slashes (c # cs) =
     (if c = CHR ''/'' \<and> list_all (\<lambda>d. d = CHR ''/'') cs then []
      else c # remove_trailing_slashes cs)"

text \<open>\<open>a ?? b\<close> on an optional field.\<close>

fun nullish_or :: "'a option \<Rightarrow> 'a \<Rightarrow> 'a" where
  "nullish_or None d = d"
| "nullish_or (Some v) d = v"

definition new_AgentScoreClient :: "AgentScoreClientOptions \<Rightarrow> AgentScoreClient" where
  "new_AgentScoreClient opts =
     \<lparr> baseUrl = remove_trailing_slashes (nullish_or (baseUrl_option opts) DEFAULT_BASE_URL),
       timeoutMs = nullish_or (timeoutMs_option opts) DEFAULT_TIMEOUT_MS,
       maxRetries = nullish_or (maxRetries_option opts) DEFAULT_MAX_RETRIES \<rparr>"

section \<open>The network as the request helpers see it\<close>

datatype http_method = GET | POST

fun method_string :: "http_method \<Rightarrow> string" where
  "method_string GET = ''GET''"
| "method_string POST = ''POST''"

text \<open>What \<open>fetch\<close> rejects with: an \<open>Error\<close> carrying its message, or any other
  value.\<close>

datatype thrown_value = ErrorObject string | NonError

text \<open>A response: its status line and what reading its body gives (\<open>None\<close> when
  \<open>res.json()\<close>, respectively \<open>res.text()\<close>, rejects).\<close>

record Response =
  status :: nat
  statusText :: string
  json_result :: "json option"
  text_result :: "string option"

text \<open>
  One attempt, as the network decides it: the attempt's timer fires first and
  \<open>controller.abort()\<close> makes \<open>fetch\<close> reject; or \<open>fetch\<close> rejects by itself (DNS,
  connection refused, an unusable URL, ...); or it resolves with a response.
\<close>

datatype fetch_outcome = TimerAborted | Rejected thrown_value | Resolved Response

text \<open>The platform's part (the README requires Node.js 18 or later): the
  \<open>AbortError\<close> that an aborted \<open>fetch\<close> rejects with is an \<open>Error\<close> with this
  message.\<close>

definition abort_error :: thrown_value where
  "abort_error = ErrorObject ''This operation was aborted''"

text \<open>
  The value of a backoff delay. The source computes it in double arithmetic, where it
  is a power of two times 1000 or, past the largest double, \<open>Infinity\<close>.
\<close>

datatype js_delay = Finite nat | Infinity

text \<open>\<open>2 ** j\<close> for an integer \<open>j \<ge> 0\<close>: a power of two is a double, computed
  exactly, as long as it is below \<open>2^1024\<close>.\<close>

definition pow2_double :: "nat \<Rightarrow> js_delay" where
  "pow2_double j = (if j < 1024 then Finite (2 ^ j) else Infinity)"

text \<open>\<open>a * x\<close> for an integer \<open>a\<close> from 1 to \<open>2^53\<close> and \<open>x\<close> a power of two or
  \<open>Infinity\<close>: the product has the significand of \<open>a\<close>, so it is exact when it is
  below \<open>2^1024\<close>, and rounds to \<open>Infinity\<close> otherwise.\<close>

fun times_double :: "nat \<Rightarrow> js_delay \<Rightarrow> js_delay" where
  "times_double a (Finite x) = (if a * x < 2 ^ 1024 then Finite (a * x) else Infinity)"
| "times_double a Infinity = Infinity"


text \<open>What the helpers do to the outside, in order: a call \<open>this._sleep(ms)\<close> with
  its argument (what \<open>setTimeout\<close> then waits is \<open>setTimeout_delay ms\<close>), or a \<open>fetch\<close>
  of a URL with a method and, when a body is given, the JSON content type header and
  the body (kept as the object that is stringified). The attempt's timer is not an
  event: what it does is the outcome \<open>TimerAborted\<close>.\<close>

datatype event = Sleep js_delay | Fetch string http_method "(string \<times> json) list option"

text \<open>\<open>s.includes(p)\<close>.\<close>

fun js_includes :: "string \<Rightarrow> string \<Rightarrow> bool" where
  "js_includes [] p = (p = [])"
| "js_includes (c # cs) p = (take (length p) (c # cs) = p \<or> js_includes cs p)"

section \<open>The request helpers (client.ts)\<close>

text \<open>The \<open>catch (err)\<close> block of both helpers.\<close>

definition caught_message :: "thrown_value \<Rightarrow> string" where
  "caught_message err = (case err of ErrorObject m \<Rightarrow> m | NonError \<Rightarrow> ''Unknown network error'')"

definition transport_error :: "AgentScoreClient \<Rightarrow> http_method \<Rightarrow> string \<Rightarrow> thrown_value \<Rightarrow> NetworkError" where
  "transport_error c m path err =
     (let msg = caught_message err
      in new_NetworkError
           (if js_includes msg ''abort''
            then ''Request timed out after '' @ js_number_string (timeoutMs c) @ ''ms: '' @ method_string m @ '' '' @ path
            else ''Network error: '' @ msg)
           None)"

text \<open>\<open>await res.text().catch(() => "")\<close> followed by \<open>text || res.statusText\<close>.\<close>

definition text_or_statusText :: "Response \<Rightarrow> string" where
  "text_or_statusText res =
     (let t = (case text_result res of None \<Rightarrow> [] | Some s \<Rightarrow> s)
      in if t = [] then statusText res else t)"

definition server_error :: "Response \<Rightarrow> NetworkError" where
  "server_error res =
     new_NetworkError (''Server error '' @ show_nat (status res) @ '': '' @ text_or_statusText res)
       (Some (status res))"

definition client_error :: "Response \<Rightarrow> NetworkError" where
  "client_error res =
     new_NetworkError (''HTTP '' @ show_nat (status res) @ '': '' @ text_or_statusText res)
       (Some (status res))"

text \<open>The 402 branch of \<open>_request\<close>: the body parsed (an empty object when parsing
  rejects), its \<open>accepts\<close> when that is an array, and the error thrown.\<close>

definition payment_required :: "Response \<Rightarrow> thrown_error" where
  "payment_required res =
     (let raw = (case json_result res of None \<Rightarrow> JObj [] | Some v \<Rightarrow> v)
      in case js_get raw ''accepts'' of
           None \<Rightarrow> TypeError
         | Some field \<Rightarrow>
             (let acc = (case field of Some (JArr xs) \<Rightarrow> xs | _ \<Rightarrow> [])
              in case new_PaymentRequiredError acc raw of
                   Inl e \<Rightarrow> e
                 | Inr e \<Rightarrow> ThrownPaymentRequiredError e))"

text \<open>\<open>throw lastError ?? new NetworkError("Request failed after retries")\<close>.\<close>

definition after_retries :: "NetworkError option \<Rightarrow> thrown_error" where
  "after_retries lastError =
     ThrownNetworkError (nullish_or lastError (new_NetworkError ''Request failed after retries'' None))"

text \<open>\<open>const backoff = INITIAL_BACKOFF_MS * 2 ** (attempt - 1)\<close>, for \<open>attempt > 0\<close>.\<close>

definition backoff :: "nat \<Rightarrow> js_delay" where
  "backoff attempt = times_double INITIAL_BACKOFF_MS (pow2_double (attempt - 1))"

text \<open>The backoff of the loop head: nothing before attempt 0.\<close>

definition backoff_events :: "nat \<Rightarrow> event list" where
  "backoff_events attempt = (if attempt > 0 then [Sleep (backoff attempt)] else [])"

text \<open>
  \<open>_request\<close>: the loop over \<open>attempt\<close>, with \<open>lastError\<close> and the events so far as
  state. \<open>net attempt\<close> is the outcome of the attempt's \<open>fetch\<close>. The result is what the
  promise settles with (\<open>Inl\<close>: the value thrown) and the events in order.
\<close>

function request_loop ::
  "AgentScoreClient \<Rightarrow> (nat \<Rightarrow> fetch_outcome) \<Rightarrow> http_method \<Rightarrow> string \<Rightarrow> (string \<times> json) list option
     \<Rightarrow> nat \<Rightarrow> NetworkError option \<Rightarrow> event list \<Rightarrow> (thrown_error + json) \<times> event list" where
  "request_loop c net m path body attempt lastError evs =
     (if js_le (Num (int attempt)) (maxRetries c) then
        (let evs' = evs @ backoff_events attempt @ [Fetch (baseUrl c @ path) m body]
         in case net attempt of
              TimerAborted \<Rightarrow>
                request_loop c net m path body (attempt + 1) (Some (transport_error c m path abort_error)) evs'
            | Rejected err \<Rightarrow>
                request_loop c net m path body (attempt + 1) (Some (transport_error c m path err)) evs'
            | Resolved res \<Rightarrow>
                if status res = 402 then (Inl (payment_required res), evs')
                else if status res \<ge> 500 then
                  request_loop c net m path body (attempt + 1) (Some (server_error res)) evs'
                else if status res \<ge> 400 then (Inl (ThrownNetworkError (client_error res)), evs')
                else (case json_result res of
                        None \<Rightarrow> (Inl BodyRejected, evs')
                      | Some v \<Rightarrow> (Inr v, evs')))
      else (Inl (after_retries lastError), evs))"
  by pat_completeness auto
termination
  by (relation "measure (\<lambda>(c, net, m, path, body, attempt, lastError, evs). (case maxRetries c of Num r \<Rightarrow> nat (r + 1 - int attempt) | NaN \<Rightarrow> 0))")
     (auto split: js_number.splits)

definition request ::
  "AgentScoreClient \<Rightarrow> (nat \<Rightarrow> fetch_outcome) \<Rightarrow> http_method \<Rightarrow> string \<Rightarrow> (string \<times> json) list option
     \<Rightarrow> (thrown_error + json) \<times> event list" where
  "request c net m path body = request_loop c net m path body 0 None []"

text \<open>\<open>_requestText\<close>: the same loop without a request body, without the 402 branch,
  and returning the body as text.\<close>

function requestText_loop ::
  "AgentScoreClient \<Rightarrow> (nat \<Rightarrow> fetch_outcome) \<Rightarrow> http_method \<Rightarrow> string
     \<Rightarrow> nat \<Rightarrow> NetworkError option \<Rightarrow> event list \<Rightarrow> (thrown_error + string) \<times> event list" where
  "requestText_loop c net m path attempt lastError evs =
     (if js_le (Num (int attempt)) (maxRetries c) then
        (let evs' = evs @ backoff_events attempt @ [Fetch (baseUrl c @ path) m None]
         in case net attempt of
              TimerAborted \<Rightarrow>
                requestText_loop c net m path (attempt + 1) (Some (transport_error c m path abort_error)) evs'
            | Rejected err \<Rightarrow>
                requestText_loop c net m path (attempt + 1) (Some (transport_error c m path err)) evs'
            | Resolved res \<Rightarrow>
                if status res \<ge> 500 then
                  requestText_loop c net m path (attempt + 1) (Some (server_error res)) evs'
                else if status res \<ge> 400 then (Inl (ThrownNetworkError (client_error res)), evs')
                else (case text_result res of
                        None \<Rightarrow> (Inl BodyRejected, evs')
                      | Some s \<Rightarrow> (Inr s, evs')))
      else (Inl (after_retries lastError), evs))"
  by pat_completeness auto
termination
  by (relation "measure (\<lambda>(c, net, m, path, attempt, lastError, evs). (case maxRetries c of Num r \<Rightarrow> nat (r + 1 - int attempt) | NaN \<Rightarrow> 0))")
     (auto split: js_number.splits)

definition requestText ::
  "AgentScoreClient \<Rightarrow> (nat \<Rightarrow> fetch_outcome) \<Rightarrow> http_method \<Rightarrow> string
     \<Rightarrow> (thrown_error + string) \<times> event list" where
  "requestText c net m path = requestText_loop c net m path 0 None []"

section \<open>Endpoints and gating helpers (client.ts)\<close>

text \<open>\<open>encodeURIComponent\<close> on the UTF-8 bytes of a well-formed string: letters,
  digits and \<open>- _ . ! ~ * ' ( )\<close> stay, every other byte becomes \<open>%XX\<close>.\<close>

definition uri_unreserved :: "char \<Rightarrow> bool" where
  "uri_unreserved ch =
     (ch \<in> set ''ABCDEFGHIJKLMNOPQRSTUVWXYZabcdefghijklmnopqrstuvwxyz0123456789-_.!~*()''
      \<or> ch = CHR 0x27)"

definition hex_digit :: "nat \<Rightarrow> char" where
  "hex_digit d = ''0123456789ABCDEF'' ! d"

definition encodeURIComponent :: "string \<Rightarrow> string" where
  "encodeURIComponent s =
     concat (map (\<lambda>ch. if uri_unreserved ch then [ch]
                       else [CHR ''%'', hex_digit (of_char ch div 16), hex_digit (of_char ch mod 16)]) s)"

definition getBasicScore ::
  "AgentScoreClient \<Rightarrow> (nat \<Rightarrow> fetch_outcome) \<Rightarrow> string \<Rightarrow> (thrown_error + json) \<times> event list" where
  "getBasicScore c net w = request c net GET (''/v1/score/basic?wallet='' @ encodeURIComponent w) None"

definition getBadge ::
  "AgentScoreClient \<Rightarrow> (nat \<Rightarrow> fetch_outcome) \<Rightarrow> string \<Rightarrow> (thrown_error + string) \<times> event list" where
  "getBadge c net w = requestText c net GET (''/v1/badge/'' @ encodeURIComponent w @ ''.svg'')"

text \<open>The body of \<open>shouldTransact\<close> after the score is fetched:
  \<open>const { recommendation } = data; return recommendation === "proceed"\<close>.
  Destructuring \<open>null\<close> throws.\<close>

definition shouldTransact_of :: "json \<Rightarrow> thrown_error + bool" where
  "shouldTransact_of data =
     (case js_get data ''recommendation'' of
        None \<Rightarrow> Inl TypeError
      | Some r \<Rightarrow> Inr (r = Some (JStr ''proceed'')))"

definition shouldTransact ::
  "AgentScoreClient \<Rightarrow> (nat \<Rightarrow> fetch_outcome) \<Rightarrow> string \<Rightarrow> (thrown_error + bool) \<times> event list" where
  "shouldTransact c net w =
     (case getBasicScore c net w of
        (Inl e, evs) \<Rightarrow> (Inl e, evs)
      | (Inr data, evs) \<Rightarrow> (shouldTransact_of data, evs))"

datatype GateReason = Proceed | Proceed_with_caution | Blocked | Unknown_recommendation

fun GateReason_string :: "GateReason \<Rightarrow> string" where
  "GateReason_string Proceed = ''proceed''"
| "GateReason_string Proceed_with_caution = ''proceed_with_caution''"
| "GateReason_string Blocked = ''blocked''"
| "GateReason_string Unknown_recommendation = ''unknown_recommendation''"

text \<open>The own properties of the object literal \<open>KNOWN_REASONS\<close>.\<close>

definition KNOWN_REASONS :: "(string \<times> GateReason) list" where
  "KNOWN_REASONS =
     [(''proceed'', Proceed), (''proceed_with_caution'', Proceed_with_caution),
      (''deny'', Blocked), (''block'', Blocked)]"

text \<open>
  \<open>KNOWN_REASONS\<close> is an object literal, so a key it does not own is looked up in
  \<open>Object.prototype\<close>. These are the properties of \<open>Object.prototype\<close>: each is a
  function, or for \<open>__proto__\<close> the prototype object; none is \<open>undefined\<close> or \<open>null\<close>.
\<close>

definition Object_prototype_keys :: "string list" where
  "Object_prototype_keys =
     [''constructor'', ''hasOwnProperty'', ''isPrototypeOf'', ''propertyIsEnumerable'',
      ''toLocaleString'', ''toString'', ''valueOf'', ''__proto__'',
      ''__defineGetter__'', ''__defineSetter__'', ''__lookupGetter__'', ''__lookupSetter__'']"

text \<open>The value of \<open>reason\<close> at run time: one of the four strings of \<open>GateReason\<close>, or
  the member of \<open>Object.prototype\<close> found under the key.\<close>

datatype reason_value = Reason GateReason | ObjectPrototypeMember string

text \<open>\<open>KNOWN_REASONS[key] ?? "unknown_recommendation"\<close>.\<close>

definition lookup_reason :: "string \<Rightarrow> reason_value" where
  "lookup_reason k =
     (case map_of KNOWN_REASONS k of
        Some r \<Rightarrow> Reason r
      | None \<Rightarrow> if k \<in> set Object_prototype_keys then ObjectPrototypeMember k
                else Reason Unknown_recommendation)"

record GateResult =
  approved :: bool
  reason :: reason_value
  score :: "json option"
  recommendation :: "json option"
  wallet :: "json option"

text \<open>The body of \<open>gateTransaction\<close> after the score is fetched. The property key of
  \<open>KNOWN_REASONS[data.recommendation]\<close> is the recommendation converted to a string
  (\<open>undefined\<close> gives the key \<open>undefined\<close>).\<close>

definition gateTransaction_of :: "json \<Rightarrow> thrown_error + GateResult" where
  "gateTransaction_of data =
     (case js_get data ''recommendation'' of
        None \<Rightarrow> Inl TypeError
      | Some r \<Rightarrow>
          (case (case r of None \<Rightarrow> Some ''undefined'' | Some v \<Rightarrow> js_ToString v) of
             None \<Rightarrow> Inl TypeError
           | Some k \<Rightarrow>
               (let rsn = lookup_reason k
                in Inr \<lparr> approved = (rsn = Reason Proceed \<or> rsn = Reason Proceed_with_caution),
                         reason = rsn,
                         score = (case js_get data ''score'' of None \<Rightarrow> None | Some x \<Rightarrow> x),
                         recommendation = r,
                         wallet = (case js_get data ''wallet'' of None \<Rightarrow> None | Some x \<Rightarrow> x) \<rparr>)))"

definition gateTransaction ::
  "AgentScoreClient \<Rightarrow> (nat \<Rightarrow> fetch_outcome) \<Rightarrow> string \<Rightarrow> (thrown_error + GateResult) \<times> event list" where
  "gateTransaction c net w =
     (case getBasicScore c net w of
        (Inl e, evs) \<Rightarrow> (Inl e, evs)
      | (Inr data, evs) \<Rightarrow> (gateTransaction_of data, evs))"

text \<open>The attempts of a run are the \<open>fetch\<close> calls among its events, the backoff
  delays its sleeps.\<close>

fun is_Fetch :: "event \<Rightarrow> bool" where
  "is_Fetch (Fetch u m b) = True"
| "is_Fetch (Sleep ms) = False"

definition attempts :: "event list \<Rightarrow> nat" where
  "attempts evs = length (filter is_Fetch evs)"

section \<open>Vocabulary of the properties\<close>

text \<open>A retryable outcome is one after which both loops \<open>continue\<close>: a transport
  failure, or a response with a status of 500 or more.\<close>

definition retryable :: "fetch_outcome \<Rightarrow> bool" where
  "retryable out =
     (case out of TimerAborted \<Rightarrow> True | Rejected err \<Rightarrow> True | Resolved res \<Rightarrow> status res \<ge> 500)"

text \<open>The \<open>lastError\<close> that the loops assign on a retryable outcome.\<close>

definition recorded_error :: "AgentScoreClient \<Rightarrow> http_method \<Rightarrow> string \<Rightarrow> fetch_outcome \<Rightarrow> NetworkError" where
  "recorded_error c m path out =
     (case out of
        TimerAborted \<Rightarrow> transport_error c m path abort_error
      | Rejected err \<Rightarrow> transport_error c m path err
      | Resolved res \<Rightarrow> server_error res)"

text \<open>The events of attempt \<open>k\<close> (the backoff of the loop head, then the fetch), and of
  the attempts \<open>i, \<dots>, j - 1\<close> in a row.\<close>

definition attempt_events ::
  "AgentScoreClient \<Rightarrow> http_method \<Rightarrow> string \<Rightarrow> (string \<times> json) list option \<Rightarrow> nat \<Rightarrow> event list" where
  "attempt_events c m path body k = backoff_events k @ [Fetch (baseUrl c @ path) m body]"

definition run_events ::
  "AgentScoreClient \<Rightarrow> http_method \<Rightarrow> string \<Rightarrow> (string \<times> json) list option \<Rightarrow> nat \<Rightarrow> nat \<Rightarrow> event list" where
  "run_events c m path body i j = concat (map (attempt_events c m path body) [i..<j])"

text \<open>How many more times the loop guard \<open>attempt <= this.maxRetries\<close> will hold from
  \<open>attempt\<close> on.\<close>

definition attempts_left :: "AgentScoreClient \<Rightarrow> nat \<Rightarrow> nat" where
  "attempts_left c attempt =
     (case maxRetries c of Num r \<Rightarrow> nat (r + 1 - int attempt) | NaN \<Rightarrow> 0)"

declare show_nat.simps [simp del]
declare request_loop.simps [simp del]
declare requestText_loop.simps [simp del]

section \<open>The loop guard\<close>

lemma attempts_left_zero: "0 = attempts_left c a \<Longrightarrow> \<not> js_le (Num (int a)) (maxRetries c)"
  by (cases "maxRetries c") (simp_all add: attempts_left_def)

lemma attempts_left_Suc_guard: "Suc d = attempts_left c a \<Longrightarrow> js_le (Num (int a)) (maxRetries c)"
  by (cases "maxRetries c") (simp_all add: attempts_left_def)

lemma attempts_left_Suc_next: "Suc d = attempts_left c a \<Longrightarrow> d = attempts_left c (Suc a)"
  by (cases "maxRetries c") (simp_all add: attempts_left_def)

lemma js_le_zero_iff:
  "\<not> js_le (Num 0) x \<longleftrightarrow> x = NaN \<or> (\<exists>r<0. x = Num r)"
  by (cases x) auto

section \<open>Backoff delays in double arithmetic\<close>

lemma pow2_1024_bound: "j \<le> 1014 \<Longrightarrow> 1000 * (2::nat) ^ j < 2 ^ 1024"
proof -
  assume j: "j \<le> 1014"
  have "1000 * (2::nat) ^ j < 2 ^ 10 * 2 ^ j" by simp
  also have "\<dots> = 2 ^ (10 + j)" by (simp add: power_add)
  also have "\<dots> \<le> 2 ^ 1024" using j by (intro power_increasing) simp_all
  finally show ?thesis .
qed


lemma backoff_finite: "1 \<le> k \<Longrightarrow> k \<le> 1015 \<Longrightarrow> backoff k = Finite (1000 * 2 ^ (k - 1))"
  using pow2_1024_bound[of "k - 1"]
  by (simp add: backoff_def pow2_double_def INITIAL_BACKOFF_MS_def)


lemma backoff_1: "backoff (Suc 0) = Finite 1000"
  using backoff_finite[of "Suc 0"] by simp

lemma backoff_2: "backoff (Suc (Suc 0)) = Finite 2000"
  using backoff_finite[of "Suc (Suc 0)"] by simp




section \<open>The removal of trailing slashes\<close>








section \<open>The two retry loops, step by step\<close>

lemma run_events_step: "i < j \<Longrightarrow> run_events c m p b i j = attempt_events c m p b i @ run_events c m p b (Suc i) j"
  by (simp add: run_events_def upt_conv_Cons)


lemma run_events_single: "run_events c m p b i (Suc i) = attempt_events c m p b i"
  by (simp add: run_events_def)

lemma request_loop_exit:
  "\<not> js_le (Num (int a)) (maxRetries c) \<Longrightarrow> request_loop c net m p b a le evs = (Inl (after_retries le), evs)"
  by (subst request_loop.simps) simp

lemma request_loop_retry:
  "js_le (Num (int a)) (maxRetries c) \<Longrightarrow> retryable (net a) \<Longrightarrow>
   request_loop c net m p b a le evs =
   request_loop c net m p b (Suc a) (Some (recorded_error c m p (net a))) (evs @ attempt_events c m p b a)"
  by (subst request_loop.simps)
     (auto simp: retryable_def recorded_error_def attempt_events_def Let_def split: fetch_outcome.splits)



lemma request_loop_exhaust:
  assumes "maxRetries c = Num (int n)" and "a \<le> n" and "\<forall>i. a \<le> i \<and> i \<le> n \<longrightarrow> retryable (net i)"
  shows "request_loop c net m p b a le evs =
         (Inl (ThrownNetworkError (recorded_error c m p (net n))), evs @ run_events c m p b a (Suc n))"
  using assms(2,3)
proof (induction "n - a" arbitrary: a le evs)
  case 0
  then have an: "a = n" by simp
  have r: "retryable (net n)" using 0 an by simp
  show ?case
    using assms(1) r unfolding an
    by (simp add: request_loop_retry request_loop_exit after_retries_def run_events_single)
next
  case (Suc d)
  then have lt: "a < n" by simp
  have r: "retryable (net a)" using Suc by simp
  have ih: "request_loop c net m p b (Suc a) (Some (recorded_error c m p (net a))) (evs @ attempt_events c m p b a) =
         (Inl (ThrownNetworkError (recorded_error c m p (net n))), (evs @ attempt_events c m p b a) @ run_events c m p b (Suc a) (Suc n))"
    using Suc by (intro Suc(1)) auto
  have "run_events c m p b a (Suc n) = attempt_events c m p b a @ run_events c m p b (Suc a) (Suc n)"
    using lt by (intro run_events_step) simp
  then show ?case using ih lt r assms(1) by (simp add: request_loop_retry)
qed
lemma requestText_loop_exit:
  "\<not> js_le (Num (int a)) (maxRetries c) \<Longrightarrow> requestText_loop c net m p a le evs = (Inl (after_retries le), evs)"
  by (subst requestText_loop.simps) simp

lemma requestText_loop_retry:
  "js_le (Num (int a)) (maxRetries c) \<Longrightarrow> retryable (net a) \<Longrightarrow>
   requestText_loop c net m p a le evs =
   requestText_loop c net m p (Suc a) (Some (recorded_error c m p (net a))) (evs @ attempt_events c m p None a)"
  by (subst requestText_loop.simps)
     (auto simp: retryable_def recorded_error_def attempt_events_def Let_def split: fetch_outcome.splits)



lemma requestText_loop_exhaust:
  assumes "maxRetries c = Num (int n)" and "a \<le> n" and "\<forall>i. a \<le> i \<and> i \<le> n \<longrightarrow> retryable (net i)"
  shows "requestText_loop c net m p a le evs =
         (Inl (ThrownNetworkError (recorded_error c m p (net n))), evs @ run_events c m p None a (Suc n))"
  using assms(2,3)
proof (induction "n - a" arbitrary: a le evs)
  case 0
  then have an: "a = n" by simp
  have r: "retryable (net n)" using 0 an by simp
  show ?case
    using assms(1) r unfolding an
    by (simp add: requestText_loop_retry requestText_loop_exit after_retries_def run_events_single)
next
  case (Suc d)
  then have lt: "a < n" by simp
  have r: "retryable (net a)" using Suc by simp
  have ih: "requestText_loop c net m p (Suc a) (Some (recorded_error c m p (net a))) (evs @ attempt_events c m p None a) =
         (Inl (ThrownNetworkError (recorded_error c m p (net n))), (evs @ attempt_events c m p None a) @ run_events c m p None (Suc a) (Suc n))"
    using Suc by (intro Suc(1)) auto
  have "run_events c m p None a (Suc n) = attempt_events c m p None a @ run_events c m p None (Suc a) (Suc n)"
    using lt by (intro run_events_step) simp
  then show ?case using ih lt r assms(1) by (simp add: requestText_loop_retry)
qed

section \<open>Counting attempts\<close>

lemma attempts_append: "attempts (xs @ ys) = attempts xs + attempts ys"
  by (simp add: attempts_def)

lemma attempts_attempt_events: "attempts (attempt_events c m p b k) = 1"
  by (simp add: attempts_def attempt_events_def backoff_events_def)

lemma attempts_run_events: "attempts (run_events c m p b i j) = j - i"
proof (induction j)
  case 0
  show ?case by (simp add: run_events_def attempts_def)
next
  case (Suc j)
  show ?case
  proof (cases "i \<le> j")
    case True
    then have "run_events c m p b i (Suc j) = run_events c m p b i j @ attempt_events c m p b j"
      by (simp add: run_events_def)
    then show ?thesis using Suc True by (simp add: attempts_append attempts_attempt_events)
  next
    case False
    then show ?thesis by (simp add: run_events_def attempts_def)
  qed
qed

lemma show_nat_503: "show_nat 503 = ''503''"
  by (simp add: show_nat.simps digit_char_def)

section \<open>Retries on a persistently failing server\<close>

text \<open>
  Claim C2. For every \<open>maxRetries = n \<ge> 0\<close>, a call of \<open>_request\<close> in which every
  attempt is answered with status 503 makes exactly \<open>n + 1\<close> attempts (the events of
  the attempts \<open>0, \<dots>, n\<close>) and then throws the \<open>NetworkError\<close> recorded for the last
  response, whose \<open>statusCode\<close> is 503 and whose message starts with
  \<open>Server error 503: \<close>.
\<close>

theorem request_all_503:
  assumes "maxRetries c = Num (int n)" and "\<forall>i\<le>n. status (resp i) = 503"
  shows "request c (\<lambda>i. Resolved (resp i)) m path body =
           (Inl (ThrownNetworkError (server_error (resp n))), run_events c m path body 0 (Suc n))
         \<and> attempts (run_events c m path body 0 (Suc n)) = n + 1
         \<and> statusCode (server_error (resp n)) = Some 503
         \<and> message (server_error (resp n)) = ''Server error 503: '' @ text_or_statusText (resp n)"
proof -
  have "\<forall>i. 0 \<le> i \<and> i \<le> n \<longrightarrow> retryable (Resolved (resp i))"
    using assms(2) by (simp add: retryable_def)
  then have "request_loop c (\<lambda>i. Resolved (resp i)) m path body 0 None [] =
      (Inl (ThrownNetworkError (recorded_error c m path (Resolved (resp n)))), [] @ run_events c m path body 0 (Suc n))"
    using assms(1) by (intro request_loop_exhaust) auto
  moreover have "status (resp n) = 503" using assms(2) by simp
  ultimately show ?thesis
    by (simp add: request_def recorded_error_def attempts_run_events server_error_def
        new_NetworkError_def show_nat_503)
qed

theorem request_all_503_witness:
  "request (new_AgentScoreClient \<lparr> baseUrl_option = None, timeoutMs_option = None, maxRetries_option = Some (Num 2) \<rparr>)
     (\<lambda>i. Resolved \<lparr> status = 503, statusText = ''Service Unavailable'', json_result = None, text_result = Some [] \<rparr>)
     GET ''/health'' None
   = (Inl (ThrownNetworkError \<lparr> name = ''NetworkError'', message = ''Server error 503: Service Unavailable'',
                                 statusCode = Some 503 \<rparr>),
      [Fetch ''https://djd-agent-score.fly.dev/health'' GET None, Sleep (Finite 1000),
       Fetch ''https://djd-agent-score.fly.dev/health'' GET None, Sleep (Finite 2000),
       Fetch ''https://djd-agent-score.fly.dev/health'' GET None])"
proof -
  let ?c = "new_AgentScoreClient \<lparr> baseUrl_option = None, timeoutMs_option = None, maxRetries_option = Some (Num 2) \<rparr>"
  let ?r = "\<lambda>i::nat. \<lparr> status = 503, statusText = ''Service Unavailable'', json_result = None, text_result = Some [] \<rparr>"
  have h1: "maxRetries ?c = Num (int 2)" by (simp add: new_AgentScoreClient_def)
  have h2: "\<forall>i\<le>2. status (?r i) = 503" by simp
  have b: "baseUrl ?c = ''https://djd-agent-score.fly.dev''"
    by (simp add: new_AgentScoreClient_def DEFAULT_BASE_URL_def)
  have ev: "run_events ?c GET ''/health'' None 0 (Suc 2) = [Fetch ''https://djd-agent-score.fly.dev/health'' GET None, Sleep (Finite 1000),
       Fetch ''https://djd-agent-score.fly.dev/health'' GET None, Sleep (Finite 2000),
       Fetch ''https://djd-agent-score.fly.dev/health'' GET None]"
    unfolding run_events_def attempt_events_def backoff_events_def b
    by (simp add: upt_conv_Cons backoff_1 backoff_2)
  show ?thesis
    using request_all_503[OF h1 h2, of GET "''/health''" None] ev
    by (simp add: server_error_def new_NetworkError_def text_or_statusText_def show_nat_503)
qed

section \<open>What is thrown when the retries are exhausted\<close>

lemma transport_error_not_generic:
  "transport_error c m p err \<noteq> new_NetworkError ''Request failed after retries'' None"
  by (simp add: transport_error_def new_NetworkError_def Let_def)

lemma server_error_not_generic:
  "server_error res \<noteq> new_NetworkError ''Request failed after retries'' None"
  by (simp add: server_error_def new_NetworkError_def)

lemma client_error_not_generic:
  "client_error res \<noteq> new_NetworkError ''Request failed after retries'' None"
  by (simp add: client_error_def new_NetworkError_def)

lemma recorded_error_not_generic:
  "recorded_error c m p out \<noteq> new_NetworkError ''Request failed after retries'' None"
  by (cases out) (simp_all add: recorded_error_def transport_error_not_generic server_error_not_generic)

lemma payment_required_not_NetworkError: "payment_required res \<noteq> ThrownNetworkError e"
  by (auto simp: payment_required_def new_PaymentRequiredError_def Let_def split: option.splits json.splits sum.splits)

lemma request_loop_terminal_result:
  "js_le (Num (int a)) (maxRetries c) \<Longrightarrow> \<not> retryable (net a) \<Longrightarrow>
   fst (request_loop c net m p b a le evs) \<noteq> Inl (ThrownNetworkError (new_NetworkError ''Request failed after retries'' None))"
  by (subst request_loop.simps)
     (auto simp: retryable_def Let_def payment_required_not_NetworkError client_error_not_generic
           split: fetch_outcome.splits option.splits)

lemma requestText_loop_terminal_result:
  "js_le (Num (int a)) (maxRetries c) \<Longrightarrow> \<not> retryable (net a) \<Longrightarrow>
   fst (requestText_loop c net m p a le evs) \<noteq> Inl (ThrownNetworkError (new_NetworkError ''Request failed after retries'' None))"
  by (subst requestText_loop.simps)
     (auto simp: retryable_def Let_def client_error_not_generic
           split: fetch_outcome.splits option.splits)

lemma after_retries_generic:
  "le \<noteq> Some (new_NetworkError ''Request failed after retries'' None) \<Longrightarrow>
   after_retries le = ThrownNetworkError (new_NetworkError ''Request failed after retries'' None) \<Longrightarrow> le = None"
  by (cases le) (simp_all add: after_retries_def)

lemma request_loop_generic:
  "le \<noteq> Some (new_NetworkError ''Request failed after retries'' None) \<Longrightarrow>
   fst (request_loop c net m p b a le evs) = Inl (ThrownNetworkError (new_NetworkError ''Request failed after retries'' None)) \<Longrightarrow>
   le = None \<and> \<not> js_le (Num (int a)) (maxRetries c)"
proof (induction "attempts_left c a" arbitrary: a le evs)
  case 0
  from 0(1) have ex: "\<not> js_le (Num (int a)) (maxRetries c)" by (rule attempts_left_zero)
  with 0(3) have "after_retries le = ThrownNetworkError (new_NetworkError ''Request failed after retries'' None)"
    by (simp add: request_loop_exit)
  with 0(2) have "le = None" by (rule after_retries_generic)
  with ex show ?case by simp
next
  case (Suc d)
  from Suc(2) have inb: "js_le (Num (int a)) (maxRetries c)" by (rule attempts_left_Suc_guard)
  show ?case
  proof (cases "retryable (net a)")
    case False
    with inb Suc(4) show ?thesis using request_loop_terminal_result[of a c net m p b le evs] by simp
  next
    case True
    from Suc(2) have d: "d = attempts_left c (Suc a)" by (rule attempts_left_Suc_next)
    have ne: "Some (recorded_error c m p (net a)) \<noteq> Some (new_NetworkError ''Request failed after retries'' None)"
      using recorded_error_not_generic[of c m p "net a"] by simp
    have "fst (request_loop c net m p b (Suc a) (Some (recorded_error c m p (net a))) (evs @ attempt_events c m p b a))
          = Inl (ThrownNetworkError (new_NetworkError ''Request failed after retries'' None))"
      using Suc(4) inb True by (simp add: request_loop_retry)
    from Suc(1)[OF d ne this] show ?thesis by simp
  qed
qed

lemma requestText_loop_generic:
  "le \<noteq> Some (new_NetworkError ''Request failed after retries'' None) \<Longrightarrow>
   fst (requestText_loop c net m p a le evs) = Inl (ThrownNetworkError (new_NetworkError ''Request failed after retries'' None)) \<Longrightarrow>
   le = None \<and> \<not> js_le (Num (int a)) (maxRetries c)"
proof (induction "attempts_left c a" arbitrary: a le evs)
  case 0
  from 0(1) have ex: "\<not> js_le (Num (int a)) (maxRetries c)" by (rule attempts_left_zero)
  with 0(3) have "after_retries le = ThrownNetworkError (new_NetworkError ''Request failed after retries'' None)"
    by (simp add: requestText_loop_exit)
  with 0(2) have "le = None" by (rule after_retries_generic)
  with ex show ?case by simp
next
  case (Suc d)
  from Suc(2) have inb: "js_le (Num (int a)) (maxRetries c)" by (rule attempts_left_Suc_guard)
  show ?case
  proof (cases "retryable (net a)")
    case False
    with inb Suc(4) show ?thesis using requestText_loop_terminal_result[of a c net m p le evs] by simp
  next
    case True
    from Suc(2) have d: "d = attempts_left c (Suc a)" by (rule attempts_left_Suc_next)
    have ne: "Some (recorded_error c m p (net a)) \<noteq> Some (new_NetworkError ''Request failed after retries'' None)"
      using recorded_error_not_generic[of c m p "net a"] by simp
    have "fst (requestText_loop c net m p (Suc a) (Some (recorded_error c m p (net a))) (evs @ attempt_events c m p None a))
          = Inl (ThrownNetworkError (new_NetworkError ''Request failed after retries'' None))"
      using Suc(4) inb True by (simp add: requestText_loop_retry)
    from Suc(1)[OF d ne this] show ?thesis by simp
  qed
qed

lemma recorded_error_statusCode:
  "statusCode (recorded_error c m p out) =
     (case out of TimerAborted \<Rightarrow> None | Rejected err \<Rightarrow> None | Resolved res \<Rightarrow> Some (status res))"
  by (cases out) (simp_all add: recorded_error_def transport_error_def server_error_def new_NetworkError_def Let_def)

text \<open>
  Claim C3, as the code has it. When every attempt of \<open>_request\<close> or \<open>_requestText\<close> has
  a retryable outcome (\<open>maxRetries = n \<ge> 0\<close>), the error thrown is exactly the
  \<open>NetworkError\<close> recorded for the last attempt \<open>n\<close>: it has no \<open>statusCode\<close> when that
  attempt was a transport failure and the HTTP status when it was a response of 500 or
  more. When the loop guard \<open>0 <= maxRetries\<close> is false the loop body never runs, no
  error is recorded and the generic \<open>Request failed after retries\<close> error is thrown;
  that generic error is thrown only then, whatever the network does; and the guard is
  false exactly when \<open>maxRetries < 0\<close> or \<open>maxRetries\<close> is \<open>NaN\<close>.
\<close>

theorem retries_exhausted:
  "(maxRetries c = Num (int n) \<and> (\<forall>i\<le>n. retryable (net i)) \<longrightarrow>
      request c net m path body =
        (Inl (ThrownNetworkError (recorded_error c m path (net n))), run_events c m path body 0 (Suc n))
      \<and> requestText c net m path =
        (Inl (ThrownNetworkError (recorded_error c m path (net n))), run_events c m path None 0 (Suc n))
      \<and> statusCode (recorded_error c m path (net n)) =
        (case net n of TimerAborted \<Rightarrow> None | Rejected err \<Rightarrow> None | Resolved res \<Rightarrow> Some (status res)))
   \<and> (\<not> js_le (Num 0) (maxRetries c) \<longrightarrow>
      request c net m path body =
        (Inl (ThrownNetworkError (new_NetworkError ''Request failed after retries'' None)), [])
      \<and> requestText c net m path =
        (Inl (ThrownNetworkError (new_NetworkError ''Request failed after retries'' None)), []))
   \<and> (fst (request c net m path body) =
        Inl (ThrownNetworkError (new_NetworkError ''Request failed after retries'' None))
      \<longrightarrow> \<not> js_le (Num 0) (maxRetries c))
   \<and> (fst (requestText c net m path) =
        Inl (ThrownNetworkError (new_NetworkError ''Request failed after retries'' None))
      \<longrightarrow> \<not> js_le (Num 0) (maxRetries c))
   \<and> ((\<not> js_le (Num 0) (maxRetries c)) = (maxRetries c = NaN \<or> js_lt (maxRetries c) (Num 0)))"
proof (intro conjI impI)
  assume h: "maxRetries c = Num (int n) \<and> (\<forall>i\<le>n. retryable (net i))"
  then have r: "\<forall>i. 0 \<le> i \<and> i \<le> n \<longrightarrow> retryable (net i)" by simp
  from h have mr: "maxRetries c = Num (int n)" by simp
  show "request c net m path body =
        (Inl (ThrownNetworkError (recorded_error c m path (net n))), run_events c m path body 0 (Suc n))"
    using request_loop_exhaust[OF mr _ r, of m path body None "[]"] by (simp add: request_def)
  show "requestText c net m path =
        (Inl (ThrownNetworkError (recorded_error c m path (net n))), run_events c m path None 0 (Suc n))"
    using requestText_loop_exhaust[OF mr _ r, of m path None "[]"] by (simp add: requestText_def)
  show "statusCode (recorded_error c m path (net n)) =
        (case net n of TimerAborted \<Rightarrow> None | Rejected err \<Rightarrow> None | Resolved res \<Rightarrow> Some (status res))"
    by (rule recorded_error_statusCode)
next
  assume "\<not> js_le (Num 0) (maxRetries c)"
  then have ex: "\<not> js_le (Num (int 0)) (maxRetries c)" by simp
  show "request c net m path body =
        (Inl (ThrownNetworkError (new_NetworkError ''Request failed after retries'' None)), [])"
    using request_loop_exit[OF ex] by (simp add: request_def after_retries_def)
  show "requestText c net m path =
        (Inl (ThrownNetworkError (new_NetworkError ''Request failed after retries'' None)), [])"
    using requestText_loop_exit[OF ex] by (simp add: requestText_def after_retries_def)
next
  assume "fst (request c net m path body) =
        Inl (ThrownNetworkError (new_NetworkError ''Request failed after retries'' None))"
  then show "\<not> js_le (Num 0) (maxRetries c)"
    using request_loop_generic[of None c net m path body 0 "[]"] by (simp add: request_def)
next
  assume "fst (requestText c net m path) =
        Inl (ThrownNetworkError (new_NetworkError ''Request failed after retries'' None))"
  then show "\<not> js_le (Num 0) (maxRetries c)"
    using requestText_loop_generic[of None c net m path 0 "[]"] by (simp add: requestText_def)
next
  show "(\<not> js_le (Num 0) (maxRetries c)) = (maxRetries c = NaN \<or> js_lt (maxRetries c) (Num 0))"
    by (cases "maxRetries c") auto
qed

lemma abort_error_includes: "js_includes (caught_message abort_error) ''abort''"
  by (simp add: abort_error_def caught_message_def)

lemma show_int_2000: "show_int 2000 = ''2000''"
  by (simp add: show_int_def show_nat.simps digit_char_def)

theorem retries_exhausted_witness:
  "request (new_AgentScoreClient \<lparr> baseUrl_option = Some ''http://localhost:1/'', timeoutMs_option = Some (Num 2000), maxRetries_option = Some (Num 1) \<rparr>)
     (\<lambda>i. if i = 0 then Resolved \<lparr> status = 503, statusText = ''Service Unavailable'', json_result = None, text_result = None \<rparr>
           else TimerAborted)
     GET ''/health'' None
   = (Inl (ThrownNetworkError \<lparr> name = ''NetworkError'', message = ''Request timed out after 2000ms: GET /health'',
                                 statusCode = None \<rparr>),
      [Fetch ''http://localhost:1/health'' GET None, Sleep (Finite 1000), Fetch ''http://localhost:1/health'' GET None])
   \<and> requestText (new_AgentScoreClient \<lparr> baseUrl_option = None, timeoutMs_option = None, maxRetries_option = Some (Num (- 1)) \<rparr>)
     (\<lambda>i. TimerAborted) GET ''/v1/badge/0xabc.svg''
   = (Inl (ThrownNetworkError \<lparr> name = ''NetworkError'', message = ''Request failed after retries'',
                                 statusCode = None \<rparr>), [])"
proof -
  let ?c = "new_AgentScoreClient \<lparr> baseUrl_option = Some ''http://localhost:1/'', timeoutMs_option = Some (Num 2000), maxRetries_option = Some (Num 1) \<rparr>"
  let ?net = "\<lambda>i::nat. if i = 0 then Resolved \<lparr> status = 503, statusText = ''Service Unavailable'', json_result = None, text_result = None \<rparr>
           else TimerAborted"
  let ?d = "new_AgentScoreClient \<lparr> baseUrl_option = None, timeoutMs_option = None, maxRetries_option = Some (Num (- 1)) \<rparr>"
  have h: "maxRetries ?c = Num (int 1) \<and> (\<forall>i\<le>1. retryable (?net i))"
    by (simp add: new_AgentScoreClient_def retryable_def)
  have b: "baseUrl ?c = ''http://localhost:1''" and t: "timeoutMs ?c = Num 2000"
    by (simp_all add: new_AgentScoreClient_def)
  have ev: "run_events ?c GET ''/health'' None 0 (Suc 1) =
      [Fetch ''http://localhost:1/health'' GET None, Sleep (Finite 1000), Fetch ''http://localhost:1/health'' GET None]"
    unfolding run_events_def attempt_events_def backoff_events_def b
    by (simp add: upt_conv_Cons backoff_1 backoff_2)
  have re: "recorded_error ?c GET ''/health'' (?net 1) =
      \<lparr> name = ''NetworkError'', message = ''Request timed out after 2000ms: GET /health'', statusCode = None \<rparr>"
    using abort_error_includes
    by (simp add: recorded_error_def transport_error_def t show_int_2000 new_NetworkError_def Let_def)
  have n: "\<not> js_le (Num 0) (maxRetries ?d)" by (simp add: new_AgentScoreClient_def)
  from retries_exhausted[of ?c 1 ?net GET "''/health''" None] h ev re
  have 1: "request ?c ?net GET ''/health'' None =
     (Inl (ThrownNetworkError \<lparr> name = ''NetworkError'', message = ''Request timed out after 2000ms: GET /health'',
                                 statusCode = None \<rparr>),
      [Fetch ''http://localhost:1/health'' GET None, Sleep (Finite 1000), Fetch ''http://localhost:1/health'' GET None])"
    by simp
  from retries_exhausted[of ?d 0 "\<lambda>i. TimerAborted" GET "''/v1/badge/0xabc.svg''" None] n
  have 2: "requestText ?d (\<lambda>i. TimerAborted) GET ''/v1/badge/0xabc.svg''
   = (Inl (ThrownNetworkError \<lparr> name = ''NetworkError'', message = ''Request failed after retries'',
                                 statusCode = None \<rparr>), [])"
    by (simp add: new_NetworkError_def)
  from 1 2 show ?thesis by simp
qed

text \<open>
  Claim C3 as stated has the generic error only for \<open>maxRetries < 0\<close>. The constructor
  stores the option unvalidated: with \<open>maxRetries\<close> \<open>NaN\<close> the guard \<open>0 <= NaN\<close> is false,
  no attempt is made and the generic error is thrown, although \<open>NaN < 0\<close> is false.
\<close>

theorem generic_error_counterexample:
  "request (new_AgentScoreClient \<lparr> baseUrl_option = None, timeoutMs_option = None, maxRetries_option = Some NaN \<rparr>)
     (\<lambda>i. TimerAborted) GET ''/health'' None
   = (Inl (ThrownNetworkError \<lparr> name = ''NetworkError'', message = ''Request failed after retries'',
                                 statusCode = None \<rparr>), [])
   \<and> \<not> js_lt (maxRetries (new_AgentScoreClient
          \<lparr> baseUrl_option = None, timeoutMs_option = None, maxRetries_option = Some NaN \<rparr>)) (Num 0)"
proof -
  let ?c = "new_AgentScoreClient \<lparr> baseUrl_option = None, timeoutMs_option = None, maxRetries_option = Some NaN \<rparr>"
  have m: "maxRetries ?c = NaN" by (simp add: new_AgentScoreClient_def)
  have "request_loop ?c (\<lambda>i. TimerAborted) GET ''/health'' None 0 None []
        = (Inl (ThrownNetworkError \<lparr> name = ''NetworkError'', message = ''Request failed after retries'',
                                 statusCode = None \<rparr>), [])"
    by (subst request_loop.simps) (simp add: m after_retries_def new_NetworkError_def)
  then show ?thesis by (simp add: request_def m)
qed

section \<open>The backoff schedule\<close>













section \<open>The request URL\<close>








section \<open>The payment-required error\<close>

lemma new_PaymentRequiredError_Inr:
  "new_PaymentRequiredError acc raw = Inr e \<Longrightarrow>
   \<exists>a s. js_ToString (or_unknown (first_accept_field acc ''maxAmountRequired'')) = Some a
       \<and> js_ToString (or_unknown (first_accept_field acc ''asset'')) = Some s
       \<and> e = \<lparr> name = ''PaymentRequiredError'', message = ''Payment required: '' @ a @ '' '' @ s,
                statusCode402 = 402, accepts = acc, rawBody = raw \<rparr>"
  unfolding new_PaymentRequiredError_def Let_def
  by (cases "js_ToString (or_unknown (first_accept_field acc ''maxAmountRequired''))";
      cases "js_ToString (or_unknown (first_accept_field acc ''asset''))") auto

text \<open>
  Claim C9. For every accepts list and raw body: with an empty list the message is
  \<open>Payment required: unknown unknown\<close>; with a first option whose \<open>maxAmountRequired\<close>
  and \<open>asset\<close> are strings the message is \<open>Payment required: <maxAmountRequired> <asset>\<close>;
  and every constructed \<open>PaymentRequiredError\<close> has \<open>statusCode\<close> 402, its \<open>accepts\<close> and
  \<open>rawBody\<close> equal to the constructor arguments, and as message \<open>Payment required: \<close>
  followed by the renderings of the two fields, each defaulting to \<open>unknown\<close>.
\<close>

theorem PaymentRequiredError_fields:
  "(acc = [] \<longrightarrow>
      new_PaymentRequiredError acc raw =
        Inr \<lparr> name = ''PaymentRequiredError'', message = ''Payment required: unknown unknown'',
              statusCode402 = 402, accepts = [], rawBody = raw \<rparr>)
   \<and> (\<forall>kvs rest amount asset.
        acc = JObj kvs # rest \<and> map_of kvs ''maxAmountRequired'' = Some (JStr amount)
          \<and> map_of kvs ''asset'' = Some (JStr asset) \<longrightarrow>
        new_PaymentRequiredError acc raw =
          Inr \<lparr> name = ''PaymentRequiredError'', message = ''Payment required: '' @ amount @ '' '' @ asset,
                statusCode402 = 402, accepts = acc, rawBody = raw \<rparr>)
   \<and> (\<forall>e. new_PaymentRequiredError acc raw = Inr e \<longrightarrow>
        statusCode402 e = 402 \<and> accepts e = acc \<and> rawBody e = raw
        \<and> (\<exists>a s. js_ToString (or_unknown (first_accept_field acc ''maxAmountRequired'')) = Some a
               \<and> js_ToString (or_unknown (first_accept_field acc ''asset'')) = Some s
               \<and> message e = ''Payment required: '' @ a @ '' '' @ s))"
proof (intro conjI allI impI)
  assume "acc = []"
  then show "new_PaymentRequiredError acc raw =
        Inr \<lparr> name = ''PaymentRequiredError'', message = ''Payment required: unknown unknown'',
              statusCode402 = 402, accepts = [], rawBody = raw \<rparr>"
    by (simp add: new_PaymentRequiredError_def)
next
  fix kvs rest amount asset
  assume "acc = JObj kvs # rest \<and> map_of kvs ''maxAmountRequired'' = Some (JStr amount)
          \<and> map_of kvs ''asset'' = Some (JStr asset)"
  then show "new_PaymentRequiredError acc raw =
          Inr \<lparr> name = ''PaymentRequiredError'', message = ''Payment required: '' @ amount @ '' '' @ asset,
                statusCode402 = 402, accepts = acc, rawBody = raw \<rparr>"
    by (simp add: new_PaymentRequiredError_def)
next
  fix e assume e: "new_PaymentRequiredError acc raw = Inr e"
  from new_PaymentRequiredError_Inr[OF e] obtain a s where
    as: "js_ToString (or_unknown (first_accept_field acc ''maxAmountRequired'')) = Some a"
        "js_ToString (or_unknown (first_accept_field acc ''asset'')) = Some s"
        "e = \<lparr> name = ''PaymentRequiredError'', message = ''Payment required: '' @ a @ '' '' @ s,
                statusCode402 = 402, accepts = acc, rawBody = raw \<rparr>"
    by blast
  from as(3) show "statusCode402 e = 402" by simp
  from as(3) show "accepts e = acc" by simp
  from as(3) show "rawBody e = raw" by simp
  from as show "\<exists>a s. js_ToString (or_unknown (first_accept_field acc ''maxAmountRequired'')) = Some a
               \<and> js_ToString (or_unknown (first_accept_field acc ''asset'')) = Some s
               \<and> message e = ''Payment required: '' @ a @ '' '' @ s"
    by simp
qed

theorem PaymentRequiredError_fields_witness:
  "new_PaymentRequiredError
     [JObj [(''scheme'', JStr ''exact''), (''maxAmountRequired'', JStr ''10000''), (''asset'', JStr ''USDC'')]]
     (JObj [(''error'', JStr ''payment required'')])
   = Inr \<lparr> name = ''PaymentRequiredError'', message = ''Payment required: 10000 USDC'', statusCode402 = 402,
           accepts = [JObj [(''scheme'', JStr ''exact''), (''maxAmountRequired'', JStr ''10000''), (''asset'', JStr ''USDC'')]],
           rawBody = JObj [(''error'', JStr ''payment required'')] \<rparr>
   \<and> new_PaymentRequiredError [] JNull
   = Inr \<lparr> name = ''PaymentRequiredError'', message = ''Payment required: unknown unknown'', statusCode402 = 402,
           accepts = [], rawBody = JNull \<rparr>"
proof -
  let ?kvs = "[(''scheme'', JStr ''exact''), (''maxAmountRequired'', JStr ''10000''), (''asset'', JStr ''USDC'')]"
  have h: "[JObj ?kvs] = JObj ?kvs # [] \<and> map_of ?kvs ''maxAmountRequired'' = Some (JStr ''10000'')
          \<and> map_of ?kvs ''asset'' = Some (JStr ''USDC'')"
    by simp
  have 1: "new_PaymentRequiredError [JObj ?kvs] (JObj [(''error'', JStr ''payment required'')])
     = Inr \<lparr> name = ''PaymentRequiredError'', message = ''Payment required: '' @ ''10000'' @ '' '' @ ''USDC'',
           statusCode402 = 402, accepts = [JObj ?kvs], rawBody = JObj [(''error'', JStr ''payment required'')] \<rparr>"
    using PaymentRequiredError_fields[of "[JObj ?kvs]" "JObj [(''error'', JStr ''payment required'')]"] h
    by blast
  have 2: "new_PaymentRequiredError [] JNull
     = Inr \<lparr> name = ''PaymentRequiredError'', message = ''Payment required: unknown unknown'', statusCode402 = 402,
           accepts = [], rawBody = JNull \<rparr>"
    using PaymentRequiredError_fields[of "[]" JNull] by blast
  from 1 2 show ?thesis by simp
qed

text \<open>
  Claim C10. The \<open>unknown\<close> fallback applies per field: when the first entry of a
  non-empty accepts list has an \<open>asset\<close> but no \<open>maxAmountRequired\<close> the message is
  \<open>Payment required: unknown <asset>\<close>, and when it has a \<open>maxAmountRequired\<close> but no
  \<open>asset\<close> the message is \<open>Payment required: <maxAmountRequired> unknown\<close>.
\<close>

theorem PaymentRequiredError_unknown_per_field:
  "(map_of kvs ''maxAmountRequired'' = None \<and> map_of kvs ''asset'' = Some (JStr asset) \<longrightarrow>
      new_PaymentRequiredError (JObj kvs # rest) raw =
        Inr \<lparr> name = ''PaymentRequiredError'', message = ''Payment required: unknown '' @ asset,
              statusCode402 = 402, accepts = JObj kvs # rest, rawBody = raw \<rparr>)
   \<and> (map_of kvs ''maxAmountRequired'' = Some (JStr amount) \<and> map_of kvs ''asset'' = None \<longrightarrow>
      new_PaymentRequiredError (JObj kvs # rest) raw =
        Inr \<lparr> name = ''PaymentRequiredError'', message = ''Payment required: '' @ amount @ '' unknown'',
              statusCode402 = 402, accepts = JObj kvs # rest, rawBody = raw \<rparr>)"
  by (simp add: new_PaymentRequiredError_def)

theorem PaymentRequiredError_unknown_per_field_witness:
  "new_PaymentRequiredError [JObj [(''asset'', JStr ''USDC'')]] (JObj [])
   = Inr \<lparr> name = ''PaymentRequiredError'', message = ''Payment required: unknown USDC'', statusCode402 = 402,
           accepts = [JObj [(''asset'', JStr ''USDC'')]], rawBody = JObj [] \<rparr>
   \<and> new_PaymentRequiredError [JObj [(''maxAmountRequired'', JStr ''10000'')]] (JObj [])
   = Inr \<lparr> name = ''PaymentRequiredError'', message = ''Payment required: 10000 unknown'', statusCode402 = 402,
           accepts = [JObj [(''maxAmountRequired'', JStr ''10000'')]], rawBody = JObj [] \<rparr>"
proof -
  have h1: "map_of [(''asset'', JStr ''USDC'')] ''maxAmountRequired'' = None
            \<and> map_of [(''asset'', JStr ''USDC'')] ''asset'' = Some (JStr ''USDC'')"
    by simp
  have h2: "map_of [(''maxAmountRequired'', JStr ''10000'')] ''maxAmountRequired'' = Some (JStr ''10000'')
            \<and> map_of [(''maxAmountRequired'', JStr ''10000'')] ''asset'' = None"
    by simp
  from PaymentRequiredError_unknown_per_field[of "[(''asset'', JStr ''USDC'')]" "''USDC''" "[]" "JObj []" "''10000''"] h1
  have 1: "new_PaymentRequiredError [JObj [(''asset'', JStr ''USDC'')]] (JObj [])
   = Inr \<lparr> name = ''PaymentRequiredError'', message = ''Payment required: unknown '' @ ''USDC'', statusCode402 = 402,
           accepts = [JObj [(''asset'', JStr ''USDC'')]], rawBody = JObj [] \<rparr>"
    by blast
  from PaymentRequiredError_unknown_per_field[of "[(''maxAmountRequired'', JStr ''10000'')]" "''USDC''" "[]" "JObj []" "''10000''"] h2
  have 2: "new_PaymentRequiredError [JObj [(''maxAmountRequired'', JStr ''10000'')]] (JObj [])
   = Inr \<lparr> name = ''PaymentRequiredError'', message = ''Payment required: '' @ ''10000'' @ '' unknown'', statusCode402 = 402,
           accepts = [JObj [(''maxAmountRequired'', JStr ''10000'')]], rawBody = JObj [] \<rparr>"
    by blast
  from 1 2 show ?thesis by simp
qed

section \<open>The message of a transport failure\<close>

lemma take_length_eq_iff: "take (length p) s = p \<longleftrightarrow> (\<exists>post. s = p @ post)"
proof
  assume "take (length p) s = p"
  then have "s = p @ drop (length p) s" by (metis append_take_drop_id)
  then show "\<exists>post. s = p @ post" ..
next
  assume "\<exists>post. s = p @ post"
  then show "take (length p) s = p" by auto
qed

lemma js_includes_iff: "js_includes s p \<longleftrightarrow> (\<exists>pre post. s = pre @ p @ post)"
proof (induction s)
  case Nil
  show ?case by auto
next
  case (Cons x xs)
  show ?case
  proof
    assume "js_includes (x # xs) p"
    then consider "take (length p) (x # xs) = p" | "js_includes xs p" by auto
    then show "\<exists>pre post. x # xs = pre @ p @ post"
    proof cases
      case 1
      then obtain post where "x # xs = p @ post" using take_length_eq_iff by metis
      then have "x # xs = [] @ p @ post" by simp
      then show ?thesis by blast
    next
      case 2
      with Cons.IH obtain pre post where "xs = pre @ p @ post" by blast
      then have "x # xs = (x # pre) @ p @ post" by simp
      then show ?thesis by blast
    qed
  next
    assume "\<exists>pre post. x # xs = pre @ p @ post"
    then obtain pre post where e: "x # xs = pre @ p @ post" by blast
    show "js_includes (x # xs) p"
    proof (cases pre)
      case Nil
      with e have "take (length p) (x # xs) = p" using take_length_eq_iff[of p "x # xs"] by auto
      then show ?thesis by simp
    next
      case (Cons y ys)
      with e have "xs = ys @ p @ post" by simp
      with Cons.IH have "js_includes xs p" by blast
      then show ?thesis by simp
    qed
  qed
qed

lemma show_int_10000: "show_int 10000 = ''10000''"
  by (simp add: show_int_def show_nat.simps digit_char_def)

text \<open>
  Claim C7, as the code has it. An attempt of \<open>_request\<close> or \<open>_requestText\<close> that fails
  before a response is received (the attempt's timer aborts the fetch, or the fetch
  rejects with \<open>err\<close>) records a \<open>NetworkError\<close> without \<open>statusCode\<close> and goes on to the
  next attempt. Its message is \<open>Request timed out after <timeout>ms: <method> <path>\<close>
  exactly when the message of the caught error contains \<open>abort\<close>, which the abort of
  the attempt's timer does, and \<open>Network error: <detail>\<close> otherwise, where the detail
  is the error's message, or \<open>Unknown network error\<close> when the thrown value is not an
  \<open>Error\<close>.
\<close>

theorem transport_failure_recorded:
  assumes "js_le (Num (int a)) (maxRetries c)"
    and "net a = Rejected err \<or> (net a = TimerAborted \<and> err = abort_error)"
  shows "request_loop c net m path body a le evs =
           request_loop c net m path body (Suc a)
             (Some \<lparr> name = ''NetworkError'',
                     message = (if js_includes (caught_message err) ''abort''
                                then ''Request timed out after '' @ js_number_string (timeoutMs c) @ ''ms: ''
                                       @ method_string m @ '' '' @ path
                                else ''Network error: '' @ caught_message err),
                     statusCode = None \<rparr>)
             (evs @ attempt_events c m path body a)
       \<and> requestText_loop c net m path a le evs =
           requestText_loop c net m path (Suc a)
             (Some \<lparr> name = ''NetworkError'',
                     message = (if js_includes (caught_message err) ''abort''
                                then ''Request timed out after '' @ js_number_string (timeoutMs c) @ ''ms: ''
                                       @ method_string m @ '' '' @ path
                                else ''Network error: '' @ caught_message err),
                     statusCode = None \<rparr>)
             (evs @ attempt_events c m path None a)
       \<and> (\<forall>msg. caught_message (ErrorObject msg) = msg)
       \<and> caught_message NonError = ''Unknown network error''
       \<and> js_includes (caught_message abort_error) ''abort''"
proof -
  have r: "retryable (net a)" using assms(2) by (auto simp: retryable_def)
  have e: "recorded_error c m path (net a) =
      \<lparr> name = ''NetworkError'',
        message = (if js_includes (caught_message err) ''abort''
                   then ''Request timed out after '' @ js_number_string (timeoutMs c) @ ''ms: ''
                          @ method_string m @ '' '' @ path
                   else ''Network error: '' @ caught_message err),
        statusCode = None \<rparr>"
    using assms(2) by (auto simp: recorded_error_def transport_error_def new_NetworkError_def Let_def)
  show ?thesis
    using request_loop_retry[of a c net m path body le evs, OF assms(1) r]
      requestText_loop_retry[of a c net m path le evs, OF assms(1) r] abort_error_includes
    unfolding e by (simp add: caught_message_def)
qed

theorem transport_failure_recorded_witness:
  "request (new_AgentScoreClient \<lparr> baseUrl_option = None, timeoutMs_option = Some (Num 2000), maxRetries_option = Some (Num 0) \<rparr>)
     (\<lambda>i. Rejected (ErrorObject ''getaddrinfo ENOTFOUND nowhere.invalid'')) GET ''/health'' None
   = (Inl (ThrownNetworkError \<lparr> name = ''NetworkError'',
                                 message = ''Network error: getaddrinfo ENOTFOUND nowhere.invalid'',
                                 statusCode = None \<rparr>),
      [Fetch ''https://djd-agent-score.fly.dev/health'' GET None])
   \<and> requestText (new_AgentScoreClient \<lparr> baseUrl_option = None, timeoutMs_option = Some (Num 2000), maxRetries_option = Some (Num 0) \<rparr>)
     (\<lambda>i. TimerAborted) GET ''/health''
   = (Inl (ThrownNetworkError \<lparr> name = ''NetworkError'',
                                 message = ''Request timed out after 2000ms: GET /health'',
                                 statusCode = None \<rparr>),
      [Fetch ''https://djd-agent-score.fly.dev/health'' GET None])"
proof -
  let ?c = "new_AgentScoreClient \<lparr> baseUrl_option = None, timeoutMs_option = Some (Num 2000), maxRetries_option = Some (Num 0) \<rparr>"
  let ?net = "\<lambda>i::nat. Rejected (ErrorObject ''getaddrinfo ENOTFOUND nowhere.invalid'')"
  let ?net' = "\<lambda>i::nat. TimerAborted"
  have h1: "js_le (Num (int 0)) (maxRetries ?c)" by (simp add: new_AgentScoreClient_def)
  have h2: "?net 0 = Rejected (ErrorObject ''getaddrinfo ENOTFOUND nowhere.invalid'')
            \<or> (?net 0 = TimerAborted \<and> ErrorObject ''getaddrinfo ENOTFOUND nowhere.invalid'' = abort_error)"
    by simp
  have h2': "?net' 0 = Rejected abort_error \<or> (?net' 0 = TimerAborted \<and> abort_error = abort_error)"
    by simp
  have ex: "\<not> js_le (Num (int (Suc 0))) (maxRetries ?c)" by (simp add: new_AgentScoreClient_def)
  have ev: "attempt_events ?c GET ''/health'' None 0 = [Fetch ''https://djd-agent-score.fly.dev/health'' GET None]"
    by (simp add: attempt_events_def backoff_events_def new_AgentScoreClient_def DEFAULT_BASE_URL_def)
  have t: "timeoutMs ?c = Num 2000" by (simp add: new_AgentScoreClient_def)
  have 1: "request ?c ?net GET ''/health'' None
   = (Inl (ThrownNetworkError \<lparr> name = ''NetworkError'',
                                 message = ''Network error: getaddrinfo ENOTFOUND nowhere.invalid'',
                                 statusCode = None \<rparr>),
      [Fetch ''https://djd-agent-score.fly.dev/health'' GET None])"
    unfolding request_def
    using transport_failure_recorded[OF h1 h2, of GET "''/health''" None None "[]"]
    by (simp add: request_loop_exit[OF ex] after_retries_def ev caught_message_def)
  have 2: "requestText ?c ?net' GET ''/health''
   = (Inl (ThrownNetworkError \<lparr> name = ''NetworkError'',
                                 message = ''Request timed out after 2000ms: GET /health'',
                                 statusCode = None \<rparr>),
      [Fetch ''https://djd-agent-score.fly.dev/health'' GET None])"
    unfolding requestText_def
    using transport_failure_recorded[OF h1 h2', of GET "''/health''" None None "[]"]
    by (simp add: requestText_loop_exit[OF ex] after_retries_def ev t show_int_2000)
  from 1 2 show ?thesis by simp
qed

text \<open>
  Claim C7 as stated ties the timed-out message to the per-attempt timeout alone. The
  code decides by the text of the error: a base URL without a scheme,
  \<open>abort.example\<close>, makes \<open>fetch\<close> reject at once with an error that quotes the URL; no
  timer fired, yet the error thrown after the single attempt says the request timed out.
\<close>

theorem timeout_message_counterexample:
  "fst (request (new_AgentScoreClient \<lparr> baseUrl_option = Some ''abort.example'', timeoutMs_option = None, maxRetries_option = Some (Num 0) \<rparr>)
          (\<lambda>i. Rejected (ErrorObject ''Failed to parse URL from abort.example/health'')) GET ''/health'' None)
   = Inl (ThrownNetworkError \<lparr> name = ''NetworkError'',
                                message = ''Request timed out after 10000ms: GET /health'',
                                statusCode = None \<rparr>)
   \<and> Rejected (ErrorObject ''Failed to parse URL from abort.example/health'') \<noteq> TimerAborted"
proof -
  let ?c = "new_AgentScoreClient \<lparr> baseUrl_option = Some ''abort.example'', timeoutMs_option = None, maxRetries_option = Some (Num 0) \<rparr>"
  have m: "maxRetries ?c = Num 0" and t: "timeoutMs ?c = Num 10000"
    by (simp_all add: new_AgentScoreClient_def DEFAULT_TIMEOUT_MS_def)
  have i: "js_includes ''Failed to parse URL from abort.example/health'' ''abort''" by simp
  have "fst (request_loop ?c (\<lambda>i. Rejected (ErrorObject ''Failed to parse URL from abort.example/health''))
          GET ''/health'' None 0 None [])
    = Inl (ThrownNetworkError \<lparr> name = ''NetworkError'',
                                message = ''Request timed out after 10000ms: GET /health'',
                                statusCode = None \<rparr>)"
    by (subst request_loop.simps, subst request_loop.simps)
       (simp add: m t i Let_def transport_error_def caught_message_def new_NetworkError_def
          after_retries_def show_int_10000)
  then show ?thesis by (simp add: request_def)
qed

section \<open>A status of 402\<close>

lemma show_nat_402: "show_nat 402 = ''402''"
  by (simp add: show_nat.simps digit_char_def)

lemma encodeURIComponent_0xabc: "encodeURIComponent ''0xabc'' = ''0xabc''"
  by (simp add: encodeURIComponent_def uri_unreserved_def)

lemma request_first_attempt_402:
  assumes "js_le (Num 0) (maxRetries c)" and "net 0 = Resolved res" and "status res = 402"
  shows "request c net m path body = (Inl (payment_required res), [Fetch (baseUrl c @ path) m body])"
  unfolding request_def using assms
  by (subst request_loop.simps) (simp add: backoff_events_def Let_def)

lemma requestText_first_attempt_4xx:
  assumes "js_le (Num 0) (maxRetries c)" and "net 0 = Resolved res" and "400 \<le> status res" and "status res < 500"
  shows "requestText c net m path =
           (Inl (ThrownNetworkError (client_error res)), [Fetch (baseUrl c @ path) m None])"
  unfolding requestText_def using assms
  by (subst requestText_loop.simps) (simp add: backoff_events_def Let_def)

lemma request_success_first_attempt:
  assumes "js_le (Num 0) (maxRetries c)" and "net 0 = Resolved res" and "status res < 400"
    and "json_result res = Some v"
  shows "request c net m path body = (Inr v, [Fetch (baseUrl c @ path) m body])"
  unfolding request_def using assms
  by (subst request_loop.simps) (simp add: backoff_events_def Let_def)

text \<open>
  Claim C1 says that \<open>_request\<close> and \<open>_requestText\<close> classify a response alike and that
  a status of exactly 402 ends in a \<open>PaymentRequiredError\<close> in both. \<open>_requestText\<close> has
  no 402 branch: on the same 402 response (body \<open>{}\<close>) \<open>_request\<close> throws the
  \<open>PaymentRequiredError\<close>, and \<open>getBadge\<close>, which goes through \<open>_requestText\<close>, throws a
  \<open>NetworkError\<close> with \<open>statusCode\<close> 402, the class that errors.ts documents as not
  used for 402. Both stop after one attempt.
\<close>

theorem requestText_402_is_NetworkError:
  "request (new_AgentScoreClient \<lparr> baseUrl_option = None, timeoutMs_option = None, maxRetries_option = None \<rparr>)
     (\<lambda>i. Resolved \<lparr> status = 402, statusText = ''Payment Required'',
                       json_result = Some (JObj []), text_result = Some ''{}'' \<rparr>)
     GET ''/v1/badge/0xabc.svg'' None
   = (Inl (ThrownPaymentRequiredError
            \<lparr> name = ''PaymentRequiredError'', message = ''Payment required: unknown unknown'',
              statusCode402 = 402, accepts = [], rawBody = JObj [] \<rparr>),
      [Fetch ''https://djd-agent-score.fly.dev/v1/badge/0xabc.svg'' GET None])
   \<and> getBadge (new_AgentScoreClient \<lparr> baseUrl_option = None, timeoutMs_option = None, maxRetries_option = None \<rparr>)
     (\<lambda>i. Resolved \<lparr> status = 402, statusText = ''Payment Required'',
                       json_result = Some (JObj []), text_result = Some ''{}'' \<rparr>)
     ''0xabc''
   = (Inl (ThrownNetworkError
            \<lparr> name = ''NetworkError'', message = ''HTTP 402: {}'', statusCode = Some 402 \<rparr>),
      [Fetch ''https://djd-agent-score.fly.dev/v1/badge/0xabc.svg'' GET None])"
proof -
  let ?c = "new_AgentScoreClient \<lparr> baseUrl_option = None, timeoutMs_option = None, maxRetries_option = None \<rparr>"
  let ?res = "\<lparr> status = 402, statusText = ''Payment Required'',
                       json_result = Some (JObj []), text_result = Some ''{}'' \<rparr>"
  have m: "js_le (Num 0) (maxRetries ?c)" by (simp add: new_AgentScoreClient_def DEFAULT_MAX_RETRIES_def)
  have b: "baseUrl ?c = ''https://djd-agent-score.fly.dev''"
    by (simp add: new_AgentScoreClient_def DEFAULT_BASE_URL_def)
  have p: "payment_required ?res = ThrownPaymentRequiredError
            \<lparr> name = ''PaymentRequiredError'', message = ''Payment required: unknown unknown'',
              statusCode402 = 402, accepts = [], rawBody = JObj [] \<rparr>"
    by (simp add: payment_required_def new_PaymentRequiredError_def)
  have e: "client_error ?res = \<lparr> name = ''NetworkError'', message = ''HTTP 402: {}'', statusCode = Some 402 \<rparr>"
    by (simp add: client_error_def new_NetworkError_def text_or_statusText_def show_nat_402)
  have 1: "request ?c (\<lambda>i. Resolved ?res) GET ''/v1/badge/0xabc.svg'' None
      = (Inl (payment_required ?res), [Fetch (baseUrl ?c @ ''/v1/badge/0xabc.svg'') GET None])"
    by (rule request_first_attempt_402[OF m, where res = "?res"]) simp_all
  have 2: "requestText ?c (\<lambda>i. Resolved ?res) GET ''/v1/badge/0xabc.svg''
      = (Inl (ThrownNetworkError (client_error ?res)), [Fetch (baseUrl ?c @ ''/v1/badge/0xabc.svg'') GET None])"
    by (rule requestText_first_attempt_4xx[OF m, where res = "?res"]) simp_all
  show ?thesis
    unfolding getBadge_def encodeURIComponent_0xabc using 1 2 unfolding p e b by simp
qed

text \<open>
  Claim C4 says that a 402 on the first attempt of \<open>_request\<close> always ends in a
  \<open>PaymentRequiredError\<close> whose \<open>accepts\<close> is the body's array or the empty list, and
  that a bad body never crashes. A body that fails to parse is replaced by an empty
  object, but a body that parses to \<open>null\<close> is kept, and the read of \<open>raw.accepts\<close>
  throws a \<open>TypeError\<close> in place of the \<open>PaymentRequiredError\<close> (after one attempt).
\<close>

theorem request_402_null_body:
  "request (new_AgentScoreClient \<lparr> baseUrl_option = None, timeoutMs_option = None, maxRetries_option = None \<rparr>)
     (\<lambda>i. Resolved \<lparr> status = 402, statusText = ''Payment Required'',
                       json_result = Some JNull, text_result = Some ''null'' \<rparr>)
     GET ''/v1/score/full?wallet=0xabc'' None
   = (Inl TypeError, [Fetch ''https://djd-agent-score.fly.dev/v1/score/full?wallet=0xabc'' GET None])"
proof -
  let ?c = "new_AgentScoreClient \<lparr> baseUrl_option = None, timeoutMs_option = None, maxRetries_option = None \<rparr>"
  let ?res = "\<lparr> status = 402, statusText = ''Payment Required'',
                       json_result = Some JNull, text_result = Some ''null'' \<rparr>"
  have m: "js_le (Num 0) (maxRetries ?c)" by (simp add: new_AgentScoreClient_def DEFAULT_MAX_RETRIES_def)
  have b: "baseUrl ?c = ''https://djd-agent-score.fly.dev''"
    by (simp add: new_AgentScoreClient_def DEFAULT_BASE_URL_def)
  have p: "payment_required ?res = TypeError"
    by (simp add: payment_required_def)
  have 1: "request ?c (\<lambda>i. Resolved ?res) GET ''/v1/score/full?wallet=0xabc'' None
      = (Inl (payment_required ?res), [Fetch (baseUrl ?c @ ''/v1/score/full?wallet=0xabc'') GET None])"
    by (rule request_first_attempt_402[OF m, where res = "?res"]) simp_all
  show ?thesis using 1 unfolding p b by simp
qed

section \<open>The gating helpers\<close>

text \<open>
  Claim C6 says that \<open>gateTransaction\<close> maps every recommendation other than the four
  known ones to the reason \<open>unknown_recommendation\<close>. \<open>KNOWN_REASONS\<close> is a plain object
  literal, so a recommendation that names a property of \<open>Object.prototype\<close> finds that
  property, the \<open>??\<close> default does not apply, and \<open>reason\<close> is not one of the four
  \<open>GateReason\<close> strings (\<open>approved\<close> is still false).
\<close>

theorem gateTransaction_inherited_key:
  "gateTransaction (new_AgentScoreClient \<lparr> baseUrl_option = None, timeoutMs_option = None, maxRetries_option = None \<rparr>)
     (\<lambda>i. Resolved \<lparr> status = 200, statusText = ''OK'',
                       json_result = Some (JObj [(''wallet'', JStr ''0xabc''), (''score'', JNum ''50''),
                                                 (''recommendation'', JStr ''constructor'')]),
                       text_result = None \<rparr>)
     ''0xabc''
   = (Inr \<lparr> approved = False, reason = ObjectPrototypeMember ''constructor'',
            score = Some (JNum ''50''), recommendation = Some (JStr ''constructor''),
            wallet = Some (JStr ''0xabc'') \<rparr>,
      [Fetch ''https://djd-agent-score.fly.dev/v1/score/basic?wallet=0xabc'' GET None])"
proof -
  let ?c = "new_AgentScoreClient \<lparr> baseUrl_option = None, timeoutMs_option = None, maxRetries_option = None \<rparr>"
  let ?data = "JObj [(''wallet'', JStr ''0xabc''), (''score'', JNum ''50''), (''recommendation'', JStr ''constructor'')]"
  let ?res = "\<lparr> status = 200, statusText = ''OK'', json_result = Some ?data, text_result = None \<rparr>"
  have m: "js_le (Num 0) (maxRetries ?c)" by (simp add: new_AgentScoreClient_def DEFAULT_MAX_RETRIES_def)
  have b: "baseUrl ?c = ''https://djd-agent-score.fly.dev''"
    by (simp add: new_AgentScoreClient_def DEFAULT_BASE_URL_def)
  have l: "lookup_reason ''constructor'' = ObjectPrototypeMember ''constructor''"
    by (simp add: lookup_reason_def KNOWN_REASONS_def Object_prototype_keys_def)
  have g: "gateTransaction_of ?data =
      Inr \<lparr> approved = False, reason = ObjectPrototypeMember ''constructor'',
            score = Some (JNum ''50''), recommendation = Some (JStr ''constructor''),
            wallet = Some (JStr ''0xabc'') \<rparr>"
    by (simp add: gateTransaction_of_def l)
  have 1: "request ?c (\<lambda>i. Resolved ?res) GET ''/v1/score/basic?wallet=0xabc'' None
      = (Inr ?data, [Fetch (baseUrl ?c @ ''/v1/score/basic?wallet=0xabc'') GET None])"
    by (rule request_success_first_attempt[OF m, where res = "?res"]) simp_all
  show ?thesis
    unfolding gateTransaction_def getBasicScore_def encodeURIComponent_0xabc using 1 unfolding b by (simp add: g)
qed

section \<open>Further properties of the request helpers and the gating helpers\<close>

lemma payment_required_thrown:
  assumes "raw = (case json_result res of None \<Rightarrow> JObj [] | Some v \<Rightarrow> v)" and "raw \<noteq> JNull"
    and "acc = (case js_get raw ''accepts'' of Some (Some (JArr xs)) \<Rightarrow> xs | _ \<Rightarrow> [])"
    and "new_PaymentRequiredError acc raw = Inr e"
  shows "payment_required res = ThrownPaymentRequiredError e"
proof -
  from assms(2) obtain f where f: "js_get raw ''accepts'' = Some f" by (cases raw) simp_all
  with assms(3) have a: "acc = (case f of Some (JArr xs) \<Rightarrow> xs | _ \<Rightarrow> [])" by simp
  show ?thesis
    unfolding payment_required_def Let_def assms(1)[symmetric] f
    using assms(4) unfolding a by simp
qed

lemma lookup_reason_own:
  "lookup_reason ''proceed'' = Reason Proceed"
  "lookup_reason ''proceed_with_caution'' = Reason Proceed_with_caution"
  "lookup_reason ''deny'' = Reason Blocked"
  "lookup_reason ''block'' = Reason Blocked"
  by (simp_all add: lookup_reason_def KNOWN_REASONS_def)

lemma lookup_reason_other:
  "r \<notin> set (map fst KNOWN_REASONS) \<Longrightarrow> r \<notin> set Object_prototype_keys \<Longrightarrow>
   lookup_reason r = Reason Unknown_recommendation"
  by (simp add: lookup_reason_def map_of_eq_None_iff[THEN iffD2])

lemma show_nat_404: "show_nat 404 = ''404''"
  by (simp add: show_nat.simps digit_char_def)

text \<open>
  A 402 on the first attempt of \<open>_request\<close> whose body is unparseable or parses to
  anything but \<open>null\<close>: exactly one attempt, no backoff, and the error thrown is the
  \<open>PaymentRequiredError\<close> built from the body's \<open>accepts\<close> when that is an array, from
  the empty list otherwise, and from the parsed body (the empty object when parsing
  failed), provided its message can be rendered.
\<close>

theorem request_402_never_retried:
  assumes "js_le (Num 0) (maxRetries c)" and "net 0 = Resolved res" and "status res = 402"
    and "raw = (case json_result res of None \<Rightarrow> JObj [] | Some v \<Rightarrow> v)" and "raw \<noteq> JNull"
    and "acc = (case js_get raw ''accepts'' of Some (Some (JArr xs)) \<Rightarrow> xs | _ \<Rightarrow> [])"
    and "new_PaymentRequiredError acc raw = Inr e"
  shows "request c net m path body =
           (Inl (ThrownPaymentRequiredError e), [Fetch (baseUrl c @ path) m body])
         \<and> accepts e = acc \<and> rawBody e = raw \<and> statusCode402 e = 402"
proof -
  have "request c net m path body = (Inl (payment_required res), [Fetch (baseUrl c @ path) m body])"
    using assms(1-3) by (rule request_first_attempt_402)
  moreover have "payment_required res = ThrownPaymentRequiredError e"
    using assms(4-7) by (rule payment_required_thrown)
  moreover have "accepts e = acc \<and> rawBody e = raw \<and> statusCode402 e = 402"
    using new_PaymentRequiredError_Inr[OF assms(7)] by auto
  ultimately show ?thesis by simp
qed

theorem request_402_never_retried_witness:
  "request (new_AgentScoreClient \<lparr> baseUrl_option = None, timeoutMs_option = None, maxRetries_option = None \<rparr>)
     (\<lambda>i. Resolved \<lparr> status = 402, statusText = ''Payment Required'',
                       json_result = Some (JObj [(''accepts'',
                          JArr [JObj [(''maxAmountRequired'', JStr ''10000''), (''asset'', JStr ''USDC'')]])]),
                       text_result = None \<rparr>)
     GET ''/v1/score/full?wallet=0xabc'' None
   = (Inl (ThrownPaymentRequiredError
            \<lparr> name = ''PaymentRequiredError'', message = ''Payment required: 10000 USDC'',
              statusCode402 = 402,
              accepts = [JObj [(''maxAmountRequired'', JStr ''10000''), (''asset'', JStr ''USDC'')]],
              rawBody = JObj [(''accepts'',
                          JArr [JObj [(''maxAmountRequired'', JStr ''10000''), (''asset'', JStr ''USDC'')]])] \<rparr>),
      [Fetch ''https://djd-agent-score.fly.dev/v1/score/full?wallet=0xabc'' GET None])"
proof -
  let ?c = "new_AgentScoreClient \<lparr> baseUrl_option = None, timeoutMs_option = None, maxRetries_option = None \<rparr>"
  let ?acc = "[JObj [(''maxAmountRequired'', JStr ''10000''), (''asset'', JStr ''USDC'')]]"
  let ?raw = "JObj [(''accepts'', JArr ?acc)]"
  let ?res = "\<lparr> status = 402, statusText = ''Payment Required'', json_result = Some ?raw, text_result = None \<rparr>"
  let ?e = "\<lparr> name = ''PaymentRequiredError'', message = ''Payment required: 10000 USDC'',
              statusCode402 = 402, accepts = ?acc, rawBody = ?raw \<rparr>"
  have h1: "js_le (Num 0) (maxRetries ?c)" by (simp add: new_AgentScoreClient_def DEFAULT_MAX_RETRIES_def)
  have h2: "(\<lambda>i::nat. Resolved ?res) 0 = Resolved ?res" by simp
  have h3: "status ?res = 402" by simp
  have h4: "?raw = (case json_result ?res of None \<Rightarrow> JObj [] | Some v \<Rightarrow> v)" by simp
  have h5: "?raw \<noteq> JNull" by simp
  have h6: "?acc = (case js_get ?raw ''accepts'' of Some (Some (JArr xs)) \<Rightarrow> xs | _ \<Rightarrow> [])" by simp
  have h7: "new_PaymentRequiredError ?acc ?raw = Inr ?e" by (simp add: new_PaymentRequiredError_def)
  have b: "baseUrl ?c = ''https://djd-agent-score.fly.dev''"
    by (simp add: new_AgentScoreClient_def DEFAULT_BASE_URL_def)
  from request_402_never_retried[OF h1 h2 h3 h4 h5 h6 h7, of GET "''/v1/score/full?wallet=0xabc''" None]
  show ?thesis unfolding b by simp
qed

text \<open>
  The gating helpers on a score payload whose \<open>recommendation\<close> is a string:
  \<open>shouldTransact\<close> answers true exactly for \<open>proceed\<close>; \<open>gateTransaction\<close> approves exactly
  \<open>proceed\<close> and \<open>proceed_with_caution\<close>, passes score, recommendation and wallet
  through, and its reason is \<open>proceed\<close>, \<open>proceed_with_caution\<close>, \<open>blocked\<close> for \<open>deny\<close> and
  \<open>block\<close>, and \<open>unknown_recommendation\<close> for every other string that is not a property of
  \<open>Object.prototype\<close>.
\<close>

theorem gating_of_string_recommendation:
  assumes "map_of kvs ''recommendation'' = Some (JStr r)"
  shows "shouldTransact_of (JObj kvs) = Inr (r = ''proceed'')
    \<and> (\<exists>g. gateTransaction_of (JObj kvs) = Inr g
          \<and> recommendation g = Some (JStr r) \<and> score g = map_of kvs ''score'' \<and> wallet g = map_of kvs ''wallet''
          \<and> reason g = lookup_reason r
          \<and> approved g = (r = ''proceed'' \<or> r = ''proceed_with_caution''))
    \<and> lookup_reason ''proceed'' = Reason Proceed
    \<and> lookup_reason ''proceed_with_caution'' = Reason Proceed_with_caution
    \<and> lookup_reason ''deny'' = Reason Blocked
    \<and> lookup_reason ''block'' = Reason Blocked
    \<and> (r \<notin> set [''proceed'', ''proceed_with_caution'', ''deny'', ''block''] \<and> r \<notin> set Object_prototype_keys
         \<longrightarrow> lookup_reason r = Reason Unknown_recommendation)"
proof -
  have ap: "(lookup_reason r = Reason Proceed \<or> lookup_reason r = Reason Proceed_with_caution)
            = (r = ''proceed'' \<or> r = ''proceed_with_caution'')"
    by (simp add: lookup_reason_def KNOWN_REASONS_def)
  have st: "shouldTransact_of (JObj kvs) = Inr (r = ''proceed'')"
    using assms by (simp add: shouldTransact_of_def)
  have gt: "\<exists>g. gateTransaction_of (JObj kvs) = Inr g
          \<and> recommendation g = Some (JStr r) \<and> score g = map_of kvs ''score'' \<and> wallet g = map_of kvs ''wallet''
          \<and> reason g = lookup_reason r
          \<and> approved g = (r = ''proceed'' \<or> r = ''proceed_with_caution'')"
    using assms ap by (simp add: gateTransaction_of_def Let_def)
  have ot: "r \<notin> set [''proceed'', ''proceed_with_caution'', ''deny'', ''block''] \<and> r \<notin> set Object_prototype_keys
         \<longrightarrow> lookup_reason r = Reason Unknown_recommendation"
    using lookup_reason_other[of r] by (simp add: KNOWN_REASONS_def)
  from st gt ot lookup_reason_own show ?thesis by blast
qed

theorem gating_of_string_recommendation_witness:
  "shouldTransact_of (JObj [(''wallet'', JStr ''0xabc''), (''score'', JNum ''72''),
                            (''recommendation'', JStr ''proceed_with_caution'')]) = Inr False
   \<and> gateTransaction_of (JObj [(''wallet'', JStr ''0xabc''), (''score'', JNum ''72''),
                             (''recommendation'', JStr ''proceed_with_caution'')])
     = Inr \<lparr> approved = True, reason = Reason Proceed_with_caution, score = Some (JNum ''72''),
             recommendation = Some (JStr ''proceed_with_caution''), wallet = Some (JStr ''0xabc'') \<rparr>
   \<and> lookup_reason ''hold'' = Reason Unknown_recommendation"
proof -
  let ?kvs = "[(''wallet'', JStr ''0xabc''), (''score'', JNum ''72''), (''recommendation'', JStr ''proceed_with_caution'')]"
  have h: "map_of ?kvs ''recommendation'' = Some (JStr ''proceed_with_caution'')" by simp
  have h': "map_of [(''recommendation'', JStr ''hold'')] ''recommendation'' = Some (JStr ''hold'')" by simp
  have n: "''hold'' \<notin> set [''proceed'', ''proceed_with_caution'', ''deny'', ''block'']
           \<and> ''hold'' \<notin> set Object_prototype_keys"
    by (simp add: Object_prototype_keys_def)
  note t = gating_of_string_recommendation[OF h]
  from t have 1: "shouldTransact_of (JObj ?kvs) = Inr False" by simp
  from t obtain g where g: "gateTransaction_of (JObj ?kvs) = Inr g"
    "recommendation g = Some (JStr ''proceed_with_caution'')" "score g = map_of ?kvs ''score''"
    "wallet g = map_of ?kvs ''wallet''" "reason g = lookup_reason ''proceed_with_caution''"
    "approved g = (''proceed_with_caution'' = ''proceed'' \<or> ''proceed_with_caution'' = ''proceed_with_caution'')"
    by blast
  from t have l: "lookup_reason ''proceed_with_caution'' = Reason Proceed_with_caution" by blast
  have "g = \<lparr> approved = True, reason = Reason Proceed_with_caution, score = Some (JNum ''72''),
             recommendation = Some (JStr ''proceed_with_caution''), wallet = Some (JStr ''0xabc'') \<rparr>"
    using g(2-6) l by (cases g) simp
  with g(1) have 2: "gateTransaction_of (JObj ?kvs)
     = Inr \<lparr> approved = True, reason = Reason Proceed_with_caution, score = Some (JNum ''72''),
             recommendation = Some (JStr ''proceed_with_caution''), wallet = Some (JStr ''0xabc'') \<rparr>"
    by simp
  from gating_of_string_recommendation[OF h'] n
  have 3: "lookup_reason ''hold'' = Reason Unknown_recommendation" by blast
  from 1 2 3 show ?thesis by blast
qed

text \<open>
  A response with a status from 400 to 499 other than 402 on the first attempt is
  never retried by either helper: one attempt, and a \<open>NetworkError\<close> with that status
  and the message \<open>HTTP <status>: <body text or reason phrase>\<close>.
\<close>

theorem client_error_never_retried:
  assumes "js_le (Num 0) (maxRetries c)" and "net 0 = Resolved res" and "400 \<le> status res" and "status res < 500"
    and "status res \<noteq> 402"
  shows "request c net m path body =
           (Inl (ThrownNetworkError (client_error res)), [Fetch (baseUrl c @ path) m body])
       \<and> requestText c net m path =
           (Inl (ThrownNetworkError (client_error res)), [Fetch (baseUrl c @ path) m None])
       \<and> statusCode (client_error res) = Some (status res)
       \<and> message (client_error res) = ''HTTP '' @ show_nat (status res) @ '': '' @ text_or_statusText res"
proof -
  have 1: "request c net m path body =
           (Inl (ThrownNetworkError (client_error res)), [Fetch (baseUrl c @ path) m body])"
    unfolding request_def using assms
    by (subst request_loop.simps) (simp add: backoff_events_def Let_def)
  have 2: "requestText c net m path =
           (Inl (ThrownNetworkError (client_error res)), [Fetch (baseUrl c @ path) m None])"
    using assms(1-4) by (rule requestText_first_attempt_4xx)
  from 1 2 show ?thesis by (simp add: client_error_def new_NetworkError_def)
qed

theorem client_error_never_retried_witness:
  "request (new_AgentScoreClient \<lparr> baseUrl_option = None, timeoutMs_option = None, maxRetries_option = None \<rparr>)
     (\<lambda>i. Resolved \<lparr> status = 404, statusText = ''Not Found'', json_result = None, text_result = Some [] \<rparr>)
     GET ''/v1/nothing'' None
   = (Inl (ThrownNetworkError \<lparr> name = ''NetworkError'', message = ''HTTP 404: Not Found'', statusCode = Some 404 \<rparr>),
      [Fetch ''https://djd-agent-score.fly.dev/v1/nothing'' GET None])"
proof -
  let ?c = "new_AgentScoreClient \<lparr> baseUrl_option = None, timeoutMs_option = None, maxRetries_option = None \<rparr>"
  let ?res = "\<lparr> status = 404, statusText = ''Not Found'', json_result = None, text_result = Some [] \<rparr>"
  have h1: "js_le (Num 0) (maxRetries ?c)" by (simp add: new_AgentScoreClient_def DEFAULT_MAX_RETRIES_def)
  have h2: "(\<lambda>i::nat. Resolved ?res) 0 = Resolved ?res" by simp
  have h3: "400 \<le> status ?res" and h4: "status ?res < 500" and h5: "status ?res \<noteq> 402" by simp_all
  have b: "baseUrl ?c = ''https://djd-agent-score.fly.dev''"
    by (simp add: new_AgentScoreClient_def DEFAULT_BASE_URL_def)
  have e: "client_error ?res = \<lparr> name = ''NetworkError'', message = ''HTTP 404: Not Found'', statusCode = Some 404 \<rparr>"
    by (simp add: client_error_def new_NetworkError_def text_or_statusText_def show_nat_404)
  from client_error_never_retried[OF h1 h2 h3 h4 h5, of GET "''/v1/nothing''" None]
  show ?thesis unfolding b e by simp
qed

text \<open>
  A first attempt that times out followed by a second that succeeds:
  \<open>_request\<close> returns the parsed payload after exactly two attempts and one backoff
  delay of the initial 1000 ms.
\<close>

theorem timeout_then_success:
  assumes "js_le (Num 1) (maxRetries c)" and "net 0 = TimerAborted" and "net 1 = Resolved res"
    and "status res < 400" and "json_result res = Some v"
  shows "request c net m path body =
           (Inr v, [Fetch (baseUrl c @ path) m body, Sleep (Finite 1000), Fetch (baseUrl c @ path) m body])"
proof -
  have r: "retryable (net 0)" using assms(2) by (simp add: retryable_def)
  have 0: "js_le (Num (int 0)) (maxRetries c)" using assms(1) by (cases "maxRetries c") simp_all
  have 1: "js_le (Num (int (Suc 0))) (maxRetries c)" using assms(1) by (cases "maxRetries c") simp_all
  have n1: "net (Suc 0) = Resolved res" using assms(3) by simp
  have "request_loop c net m path body (Suc 0) (Some (recorded_error c m path (net 0)))
          ([] @ attempt_events c m path body 0)
        = (Inr v, [Fetch (baseUrl c @ path) m body, Sleep (Finite 1000), Fetch (baseUrl c @ path) m body])"
    using 1 n1 assms(4,5)
    by (subst request_loop.simps)
       (simp add: attempt_events_def backoff_events_def backoff_1 Let_def)
  then show ?thesis
    unfolding request_def using request_loop_retry[of 0 c net m path body None "[]", OF 0 r] by simp
qed

theorem timeout_then_success_witness:
  "request (new_AgentScoreClient \<lparr> baseUrl_option = None, timeoutMs_option = None, maxRetries_option = None \<rparr>)
     (\<lambda>i. if i = 0 then TimerAborted
           else Resolved \<lparr> status = 200, statusText = ''OK'', json_result = Some (JObj [(''status'', JStr ''ok'')]),
                            text_result = None \<rparr>)
     GET ''/health'' None
   = (Inr (JObj [(''status'', JStr ''ok'')]),
      [Fetch ''https://djd-agent-score.fly.dev/health'' GET None, Sleep (Finite 1000),
       Fetch ''https://djd-agent-score.fly.dev/health'' GET None])"
proof -
  let ?c = "new_AgentScoreClient \<lparr> baseUrl_option = None, timeoutMs_option = None, maxRetries_option = None \<rparr>"
  let ?res = "\<lparr> status = 200, statusText = ''OK'', json_result = Some (JObj [(''status'', JStr ''ok'')]),
                            text_result = None \<rparr>"
  let ?net = "\<lambda>i::nat. if i = 0 then TimerAborted else Resolved ?res"
  have h1: "js_le (Num 1) (maxRetries ?c)" by (simp add: new_AgentScoreClient_def DEFAULT_MAX_RETRIES_def)
  have h2: "?net 0 = TimerAborted" and h3: "?net 1 = Resolved ?res" by simp_all
  have h4: "status ?res < 400" and h5: "json_result ?res = Some (JObj [(''status'', JStr ''ok'')])" by simp_all
  have b: "baseUrl ?c = ''https://djd-agent-score.fly.dev''"
    by (simp add: new_AgentScoreClient_def DEFAULT_BASE_URL_def)
  from timeout_then_success[OF h1 h2 h3 h4 h5, of GET "''/health''" None]
  show ?thesis unfolding b by simp
qed

end
